theory Spec2Isabelle
  imports Main "HOL-Library.Sublist"
begin

section \<open>Data model\<close>

text \<open>
  The backend of XJR-3 keeps two MongoDB collections, reached through the Mongoose models
  \<^verbatim>\<open>Paper\<close> and \<^verbatim>\<open>Config\<close>, and one in-process module object, \<^verbatim>\<open>shared/config\<close>.
  A collection is a list of documents in the order in which the store enumerates them.
  A string is a list of characters, that is of code units below 256; a \<^verbatim>\<open>Date\<close> is a
  natural number (milliseconds); a JavaScript number that has passed an \<^verbatim>\<open>integer()\<close>
  check is an \<^typ>\<open>int\<close>.
\<close>

record metadata =
  title :: string
  authors :: "string list"
  abstract :: string
  publishYear :: int

text \<open>\<^verbatim>\<open>ReadSchema\<close>: the field \<open>entryId\<close> is the \<^verbatim>\<open>_id\<close> that Mongoose gives a subdocument,
  an object id written as its 24 hexadecimal digits in lower case; \<open>read_notes\<close> is the
  schema's \<^verbatim>\<open>notes\<close>.\<close>

record read_entry =
  entryId :: string
  user :: string
  timestamp :: nat
  read_notes :: string

text \<open>\<^verbatim>\<open>PaperSchema\<close>: the field \<open>paper_id\<close> is the schema's \<^verbatim>\<open>id\<close>.\<close>

record paper =
  paper_id :: string
  metadata :: metadata
  reads :: "read_entry list"

text \<open>The module object \<^verbatim>\<open>shared/config\<close> that the paper routes import as \<^verbatim>\<open>config\<close>.\<close>

record shared_config =
  preventDuplicateReads :: bool

text \<open>
  The server: the \<^verbatim>\<open>Paper\<close> collection, the \<^verbatim>\<open>Config\<close> collection (each document
  reduced to its \<^verbatim>\<open>preventDuplicateReads\<close> field) and the module object.
\<close>

record server =
  papers :: "paper list"
  configDocs :: "bool list"
  config :: shared_config

subsection \<open>Request bodies\<close>

text \<open>
  A field of the JSON body is an option: \<open>None\<close> when it is missing or \<^verbatim>\<open>null\<close>, which
  Joi refuses alike for a required field. The body's \<^verbatim>\<open>metadata\<close> and \<^verbatim>\<open>read\<close> objects
  may be missing as a whole, too: there \<open>None\<close> is the missing object.
\<close>

record metadata_body =
  b_title :: "string option"
  b_authors :: "string list option"
  b_abstract :: "string option"
  b_publishYear :: "int option"

record read_body =
  b_user :: "string option"
  b_notes :: "string option"

section \<open>Validation\<close>

subsection \<open>Joi\<close>

text \<open>
  \<^verbatim>\<open>Joi.string().required()\<close>: the value is present and is not the empty string.
\<close>

definition joi_string_required :: "string option \<Rightarrow> bool" where
  "joi_string_required v = (case v of None \<Rightarrow> False | Some s \<Rightarrow> s \<noteq> [])"

text \<open>\<^verbatim>\<open>Joi.number()\<close> refuses a number outside the safe integers.\<close>

definition joi_safe :: "int \<Rightarrow> bool" where
  "joi_safe n = (- 9007199254740991 \<le> n \<and> n \<le> 9007199254740991)"

text \<open>\<^verbatim>\<open>Joi.array().items(Joi.string()).required()\<close>\<close>

definition joi_string_array_required :: "string list option \<Rightarrow> bool" where
  "joi_string_array_required v =
     (case v of None \<Rightarrow> False | Some xs \<Rightarrow> list_all (\<lambda>s. s \<noteq> []) xs)"

text \<open>\<^verbatim>\<open>Joi.number().integer().min(1900).required()\<close>\<close>

definition joi_publishYear_required :: "int option \<Rightarrow> bool" where
  "joi_publishYear_required v =
     (case v of None \<Rightarrow> False | Some y \<Rightarrow> joi_safe y \<and> 1900 \<le> y)"

text \<open>
  \<^verbatim>\<open>metadataSchema.validate(metadata)\<close> has no error. The object schema itself is not
  \<^verbatim>\<open>required()\<close>, so a missing \<^verbatim>\<open>metadata\<close> passes.
\<close>

definition metadataSchema :: "metadata_body option \<Rightarrow> bool" where
  "metadataSchema mb =
     (case mb of
        None \<Rightarrow> True
      | Some m \<Rightarrow>
          joi_string_required (b_title m) \<and>
          joi_string_array_required (b_authors m) \<and>
          joi_string_required (b_abstract m) \<and>
          joi_publishYear_required (b_publishYear m))"

text \<open>\<^verbatim>\<open>readSchema.validate(read)\<close> has no error.\<close>

definition readSchema :: "read_body option \<Rightarrow> bool" where
  "readSchema rb =
     (case rb of
        None \<Rightarrow> True
      | Some r \<Rightarrow> joi_string_required (b_user r) \<and> joi_string_required (b_notes r))"

text \<open>
  \<^verbatim>\<open>const { error: metadataError } = metadataSchema.validate(metadata)\<close> and
  \<^verbatim>\<open>const { error: readError } = readSchema.validate(read)\<close>, as truth values.
\<close>

definition metadataError :: "metadata_body option \<Rightarrow> bool" where
  "metadataError mb = (\<not> metadataSchema mb)"

definition readError :: "read_body option \<Rightarrow> bool" where
  "readError rb = (\<not> readSchema rb)"

subsection \<open>Mongoose\<close>

text \<open>
  \<^verbatim>\<open>ReadSchema\<close> requires \<^verbatim>\<open>user\<close> and \<^verbatim>\<open>notes\<close>; a required string is not empty.
\<close>

definition ReadSchema :: "read_entry \<Rightarrow> bool" where
  "ReadSchema r = (user r \<noteq> [] \<and> read_notes r \<noteq> [])"

text \<open>
  \<^verbatim>\<open>PaperSchema\<close> requires \<^verbatim>\<open>id\<close>, \<^verbatim>\<open>metadata.title\<close>, \<^verbatim>\<open>metadata.abstract\<close> and an
  integer \<^verbatim>\<open>metadata.publishYear\<close> of at least 1900.
\<close>

definition PaperSchema :: "paper \<Rightarrow> bool" where
  "PaperSchema p =
     (paper_id p \<noteq> [] \<and>
      title (metadata p) \<noteq> [] \<and>
      abstract (metadata p) \<noteq> [] \<and>
      1900 \<le> publishYear (metadata p) \<and>
      list_all ReadSchema (reads p))"

text \<open>
  \<^verbatim>\<open>new Paper({ id, metadata, reads })\<close> from the request's metadata: a document can be
  built only from fields that are present; with a field missing, validation on save fails.
\<close>

definition new_metadata :: "metadata_body option \<Rightarrow> metadata option" where
  "new_metadata mb =
     (case mb of
        None \<Rightarrow> None
      | Some m \<Rightarrow>
          (case (b_title m, b_authors m, b_abstract m, b_publishYear m) of
             (Some t, Some a, Some ab, Some y) \<Rightarrow>
               Some \<lparr>title = t, authors = a, abstract = ab, publishYear = y\<rparr>
           | _ \<Rightarrow> None))"

section \<open>POST /api/papers/mark-read\<close>

text \<open>
  The handler's answers: 200 with the paper, 409 (\<^verbatim>\<open>Duplicate read entry prevented.\<close>),
  400 with Joi's message, and 500 from the \<^verbatim>\<open>catch\<close> block.
\<close>

datatype mark_outcome =
    Accepted paper
  | DuplicateRejected
  | ValidationFailed
  | ServerError

text \<open>\<^verbatim>\<open>Paper.findOne({ id })\<close>\<close>

definition findOne :: "string \<Rightarrow> paper list \<Rightarrow> paper option" where
  "findOne pid ps = find (\<lambda>p. paper_id p = pid) ps"

text \<open>
  \<^verbatim>\<open>paper.reads.some(existingRead => existingRead.user === newReadEntry.user &&
  existingRead.notes === newReadEntry.notes)\<close>
\<close>

definition isDuplicate :: "read_entry list \<Rightarrow> read_entry \<Rightarrow> bool" where
  "isDuplicate rs newReadEntry =
     list_ex (\<lambda>existingRead. user existingRead = user newReadEntry \<and>
                              read_notes existingRead = read_notes newReadEntry) rs"

text \<open>
  Saving a loaded paper after \<^verbatim>\<open>paper.reads.push(e)\<close>: Mongoose validates the document
  in hand and sends the push to the store, where it lands at the end of the stored
  paper's \<^verbatim>\<open>reads\<close>.
\<close>

fun push_read :: "string \<Rightarrow> read_entry \<Rightarrow> paper list \<Rightarrow> paper list" where
  "push_read pid e [] = []"
| "push_read pid e (p # ps) =
     (if paper_id p = pid then p\<lparr>reads := reads p @ [e]\<rparr> # ps
      else p # push_read pid e ps)"

text \<open>
  The handler suspends at \<^verbatim>\<open>await Paper.findOne({ id })\<close>. What runs before the
  suspension: validation, \<open>newReadEntry\<close>, and the query. \<open>reqUser\<close> is \<^verbatim>\<open>req.user.id\<close>,
  \<open>now\<close> is \<^verbatim>\<open>new Date()\<close>, \<open>oid\<close> the \<^verbatim>\<open>_id\<close> Mongoose will give the entry.
  With the \<^verbatim>\<open>read\<close> object missing, \<^verbatim>\<open>read.notes\<close> throws inside the \<^verbatim>\<open>try\<close> block and the
  handler answers 500. Notes cannot be missing once \<open>readSchema\<close> has passed; were they,
  the entry could not be saved.
\<close>

datatype mark_pending =
    Responded mark_outcome
  | Found read_entry "paper option"

text \<open>
  \<^verbatim>\<open>const newReadEntry = { user: req.user.id, timestamp: new Date(), notes: read.notes }\<close>
\<close>

definition make_newReadEntry :: "string \<Rightarrow> nat \<Rightarrow> string \<Rightarrow> string \<Rightarrow> read_entry" where
  "make_newReadEntry reqUser now oid n =
     \<lparr>entryId = oid, user = reqUser, timestamp = now, read_notes = n\<rparr>"

definition markRead_find ::
  "string \<Rightarrow> nat \<Rightarrow> string \<Rightarrow> string \<Rightarrow> metadata_body option \<Rightarrow> read_body option \<Rightarrow>
   server \<Rightarrow> mark_pending" where
  "markRead_find reqUser now oid pid mb rb s =
     (if metadataError mb \<or> readError rb then Responded ValidationFailed
      else
        (case rb of
           None \<Rightarrow> Responded ServerError
         | Some r \<Rightarrow>
             (case b_notes r of
                None \<Rightarrow> Responded ServerError
              | Some n \<Rightarrow>
                  Found (make_newReadEntry reqUser now oid n) (findOne pid (papers s)))))"

text \<open>
  What runs after the suspension, on the store as it is then: the duplicate check on the
  paper that was found, the push and the save; or the creation of a new paper. The
  \<^verbatim>\<open>id\<close> index is unique, so the store refuses a second paper of the same id.
\<close>

definition markRead_commit ::
  "string \<Rightarrow> metadata_body option \<Rightarrow> mark_pending \<Rightarrow> server \<Rightarrow> mark_outcome \<times> server" where
  "markRead_commit pid mb pending s =
     (case pending of
        Responded out \<Rightarrow> (out, s)
      | Found newReadEntry (Some paper) \<Rightarrow>
          (if preventDuplicateReads (config s) \<and> isDuplicate (reads paper) newReadEntry
           then (DuplicateRejected, s)
           else
             (let paper' = paper\<lparr>reads := reads paper @ [newReadEntry]\<rparr> in
              if PaperSchema paper'
              then (Accepted paper', s\<lparr>papers := push_read pid newReadEntry (papers s)\<rparr>)
              else (ServerError, s)))
      | Found newReadEntry None \<Rightarrow>
          (case new_metadata mb of
             None \<Rightarrow> (ServerError, s)
           | Some m \<Rightarrow>
               (let paper = \<lparr>paper_id = pid, metadata = m, reads = [newReadEntry]\<rparr> in
                if PaperSchema paper \<and> findOne pid (papers s) = None
                then (Accepted paper, s\<lparr>papers := papers s @ [paper]\<rparr>)
                else (ServerError, s))))"

text \<open>One request, served without another one in between.\<close>

definition markRead ::
  "string \<Rightarrow> nat \<Rightarrow> string \<Rightarrow> string \<Rightarrow> metadata_body option \<Rightarrow> read_body option \<Rightarrow>
   server \<Rightarrow> mark_outcome \<times> server" where
  "markRead reqUser now oid pid mb rb s =
     markRead_commit pid mb (markRead_find reqUser now oid pid mb rb s) s"

section \<open>DELETE /api/papers/mark-read and DELETE /api/admin/mark-read\<close>

record delete_body =
  d_id :: "string option"
  d_readEntryId :: "string option"

text \<open>
  The answers of the two routes: 200 (\<^verbatim>\<open>Read entry removed successfully\<close>) with the
  paper, 404, 400 with Joi's message, and 500 from the \<^verbatim>\<open>catch\<close> block.
\<close>

datatype remove_outcome =
    Removed paper
  | NotFound
  | RemoveInvalid
  | RemoveError

text \<open>
  The path \<^verbatim>\<open>reads._id\<close> is an object id, so Mongoose casts the request's
  \<^verbatim>\<open>readEntryId\<close> before it queries, with the driver's \<^verbatim>\<open>ObjectId\<close> constructor: a
  string of 24 hexadecimal digits denotes the id of these digits, whatever the case of
  its letters; on any other string the cast throws, inside the \<^verbatim>\<open>try\<close> block. The result
  is the id in the spelling of \<open>entryId\<close>, or \<open>None\<close> when the cast throws.
\<close>

definition isHexDigit :: "char \<Rightarrow> bool" where
  "isHexDigit c = (c \<in> set ''0123456789abcdefABCDEF'')"

definition hexToLower :: "char \<Rightarrow> char" where
  "hexToLower c =
     (case map_of (zip ''ABCDEF'' ''abcdef'') c of
        None \<Rightarrow> c
      | Some l \<Rightarrow> l)"

definition castObjectId :: "string \<Rightarrow> string option" where
  "castObjectId str =
     (if length str = 24 \<and> list_all isHexDigit str then Some (map hexToLower str) else None)"

text \<open>
  \<^verbatim>\<open>Model.findOneAndUpdate(query, update, { new: true })\<close>: the first document that
  satisfies the query is updated in place, and the updated document is returned; with no
  such document nothing changes and the result is \<^verbatim>\<open>null\<close>.
\<close>

fun findOneAndUpdate ::
  "(paper \<Rightarrow> bool) \<Rightarrow> (paper \<Rightarrow> paper) \<Rightarrow> paper list \<Rightarrow> (paper \<times> paper list) option" where
  "findOneAndUpdate query update [] = None"
| "findOneAndUpdate query update (p # ps) =
     (if query p then Some (update p, update p # ps)
      else
        (case findOneAndUpdate query update ps of
           None \<Rightarrow> None
         | Some (d, ps') \<Rightarrow> Some (d, p # ps')))"

text \<open>
  \<^verbatim>\<open>{ $pull: { reads: cond } }\<close> removes from \<^verbatim>\<open>reads\<close> every element that satisfies all
  of \<open>cond\<close>.
\<close>

definition pull :: "(read_entry \<Rightarrow> bool) \<Rightarrow> paper \<Rightarrow> paper" where
  "pull cond p = p\<lparr>reads := filter (\<lambda>r. \<not> cond r) (reads p)\<rparr>"

text \<open>
  The user's route. Its query is
  \<^verbatim>\<open>{ id: id, 'reads._id': readEntryId, 'reads.user': userId }\<close>: in MongoDB, each
  dotted condition on an array field holds when some element of the array satisfies it,
  and the two conditions need not hold of the same element (that would take
  \<^verbatim>\<open>$elemMatch\<close>). Its update is
  \<^verbatim>\<open>{ $pull: { reads: { _id: readEntryId, user: userId } } }\<close>. In both, the entry id
  is the cast one.
\<close>

definition removeRead :: "string \<Rightarrow> delete_body \<Rightarrow> server \<Rightarrow> remove_outcome \<times> server" where
  "removeRead userId body s =
     (if joi_string_required (d_id body) \<and> joi_string_required (d_readEntryId body) then
        (case (d_id body, d_readEntryId body) of
           (Some pid, Some readEntryId) \<Rightarrow>
             (case castObjectId readEntryId of
                None \<Rightarrow> (RemoveError, s)
              | Some oid \<Rightarrow>
                  (case findOneAndUpdate
                          (\<lambda>p. paper_id p = pid \<and>
                               list_ex (\<lambda>r. entryId r = oid) (reads p) \<and>
                               list_ex (\<lambda>r. user r = userId) (reads p))
                          (pull (\<lambda>r. entryId r = oid \<and> user r = userId))
                          (papers s) of
                     None \<Rightarrow> (NotFound, s)
                   | Some (paper, ps') \<Rightarrow> (Removed paper, s\<lparr>papers := ps'\<rparr>)))
         | _ \<Rightarrow> (RemoveInvalid, s))
      else (RemoveInvalid, s))"

text \<open>
  The administrator's route: the query is \<^verbatim>\<open>{ id: paperId, 'reads._id': readEntryId }\<close>
  and the update \<^verbatim>\<open>{ $pull: { reads: { _id: readEntryId } } }\<close>, with the same cast.
\<close>

definition adminRemoveRead :: "delete_body \<Rightarrow> server \<Rightarrow> remove_outcome \<times> server" where
  "adminRemoveRead body s =
     (if joi_string_required (d_id body) \<and> joi_string_required (d_readEntryId body) then
        (case (d_id body, d_readEntryId body) of
           (Some paperId, Some readEntryId) \<Rightarrow>
             (case castObjectId readEntryId of
                None \<Rightarrow> (RemoveError, s)
              | Some oid \<Rightarrow>
                  (case findOneAndUpdate
                          (\<lambda>p. paper_id p = paperId \<and>
                               list_ex (\<lambda>r. entryId r = oid) (reads p))
                          (pull (\<lambda>r. entryId r = oid))
                          (papers s) of
                     None \<Rightarrow> (NotFound, s)
                   | Some (paper, ps') \<Rightarrow> (Removed paper, s\<lparr>papers := ps'\<rparr>)))
         | _ \<Rightarrow> (RemoveInvalid, s))
      else (RemoveInvalid, s))"

section \<open>GET and POST /api/admin/config\<close>

text \<open>The answers of \<^verbatim>\<open>POST /config\<close>: 200 with the stored value, and 400.\<close>

datatype config_outcome =
    ConfigOk bool
  | ConfigInvalid

text \<open>
  \<^verbatim>\<open>Config.findOne({})\<close>, and \<^verbatim>\<open>false\<close> when the collection is empty.
\<close>

definition getConfig :: "server \<Rightarrow> bool" where
  "getConfig s = (case configDocs s of [] \<Rightarrow> False | c # cs \<Rightarrow> c)"

text \<open>
  \<^verbatim>\<open>configUpdateSchema\<close> requires the boolean; then
  \<^verbatim>\<open>Config.findOneAndUpdate({}, { preventDuplicateReads }, { new: true, upsert: true })\<close>
  rewrites the first document of the \<^verbatim>\<open>Config\<close> collection, or inserts one. The handler
  touches nothing else: the admin routes do not import \<^verbatim>\<open>shared/config\<close>.
\<close>

definition setConfig :: "bool option \<Rightarrow> server \<Rightarrow> config_outcome \<times> server" where
  "setConfig body s =
     (case body of
        None \<Rightarrow> (ConfigInvalid, s)
      | Some v \<Rightarrow>
          (ConfigOk v,
           s\<lparr>configDocs := (case configDocs s of [] \<Rightarrow> [v] | c # cs \<Rightarrow> v # cs)\<rparr>))"

section \<open>GET /api/papers/search-papers\<close>

subsection \<open>The query and its validation\<close>

record search_query =
  q_keyword :: "string option"
  q_user :: "string option"
  q_publishYear :: "int option"
  q_page :: "int option"
  q_limit :: "int option"

text \<open>The \<^verbatim>\<open>value\<close> of a successful validation, defaults filled in.\<close>

record search_value =
  v_keyword :: "string option"
  v_user :: "string option"
  v_publishYear :: "int option"
  v_page :: int
  v_limit :: int

text \<open>White space as \<^verbatim>\<open>String.prototype.trim\<close> sees it, among the code units below 256.\<close>

definition isWhiteSpace :: "char \<Rightarrow> bool" where
  "isWhiteSpace c = (of_char c \<in> {9, 10, 11, 12, 13, 32, 160 :: nat})"

definition trim :: "string \<Rightarrow> string" where
  "trim str = rev (dropWhile isWhiteSpace (rev (dropWhile isWhiteSpace str)))"

text \<open>
  \<^verbatim>\<open>Joi.string().trim().optional()\<close>: the value is trimmed first, and an empty string
  is an error. The result is \<open>None\<close> on an error, else the validated value.
\<close>

definition joi_string_trim_optional :: "string option \<Rightarrow> string option option" where
  "joi_string_trim_optional v =
     (case v of
        None \<Rightarrow> Some None
      | Some str \<Rightarrow> (if trim str = [] then None else Some (Some (trim str))))"

text \<open>\<^verbatim>\<open>Joi.number().integer().min(1900).optional()\<close>\<close>

definition joi_publishYear_optional :: "int option \<Rightarrow> int option option" where
  "joi_publishYear_optional v =
     (case v of
        None \<Rightarrow> Some None
      | Some y \<Rightarrow> (if joi_safe y \<and> 1900 \<le> y then Some (Some y) else None))"

text \<open>\<^verbatim>\<open>Joi.number().integer().min(1).default(1)\<close>\<close>

definition joi_page :: "int option \<Rightarrow> int option" where
  "joi_page v =
     (case v of
        None \<Rightarrow> Some 1
      | Some n \<Rightarrow> (if joi_safe n \<and> 1 \<le> n then Some n else None))"

text \<open>\<^verbatim>\<open>Joi.number().integer().min(1).max(50).default(10)\<close>\<close>

definition joi_limit :: "int option \<Rightarrow> int option" where
  "joi_limit v =
     (case v of
        None \<Rightarrow> Some 10
      | Some n \<Rightarrow> (if joi_safe n \<and> 1 \<le> n \<and> n \<le> 50 then Some n else None))"

definition searchSchema :: "search_query \<Rightarrow> search_value option" where
  "searchSchema q =
     (case (joi_string_trim_optional (q_keyword q), joi_string_trim_optional (q_user q),
            joi_publishYear_optional (q_publishYear q), joi_page (q_page q),
            joi_limit (q_limit q)) of
        (Some k, Some u, Some y, Some p, Some l) \<Rightarrow>
          Some \<lparr>v_keyword = k, v_user = u, v_publishYear = y, v_page = p, v_limit = l\<rparr>
      | _ \<Rightarrow> None)"

subsection \<open>Regular expressions\<close>

text \<open>
  \<^verbatim>\<open>new RegExp(keyword, 'i')\<close> throws on a pattern that is not well-formed; otherwise the
  store tests it against a string. A pattern of ASCII letters, digits and spaces only has
  no operator in it: it matches a text when it occurs in it, letter case ignored. For
  every other pattern the outcome is the regular-expression engine's, which is a
  parameter here: \<open>None\<close> when the constructor throws, else the test.
\<close>

type_synonym regex_engine = "string \<Rightarrow> (string \<Rightarrow> bool) option"

definition toLowerCase :: "char \<Rightarrow> char" where
  "toLowerCase c =
     (case map_of (zip ''ABCDEFGHIJKLMNOPQRSTUVWXYZ'' ''abcdefghijklmnopqrstuvwxyz'') c of
        None \<Rightarrow> c
      | Some l \<Rightarrow> l)"

definition plain :: "string \<Rightarrow> bool" where
  "plain pattern =
     list_all
       (\<lambda>c. c \<in> set ''ABCDEFGHIJKLMNOPQRSTUVWXYZabcdefghijklmnopqrstuvwxyz0123456789 '')
       pattern"

fun startsWith :: "string \<Rightarrow> string \<Rightarrow> bool" where
  "startsWith text [] = True"
| "startsWith [] (c # cs) = False"
| "startsWith (t # ts) (c # cs) = (t = c \<and> startsWith ts cs)"

fun str_includes :: "string \<Rightarrow> string \<Rightarrow> bool" where
  "str_includes [] pattern = (pattern = [])"
| "str_includes (t # ts) pattern = (startsWith (t # ts) pattern \<or> str_includes ts pattern)"

definition RegExp_i :: "regex_engine \<Rightarrow> string \<Rightarrow> (string \<Rightarrow> bool) option" where
  "RegExp_i engine pattern =
     (if plain pattern
      then Some (\<lambda>text. str_includes (map toLowerCase text) (map toLowerCase pattern))
      else engine pattern)"

subsection \<open>The aggregation pipeline\<close>

text \<open>
  \<open>matchConditions\<close>: the \<^verbatim>\<open>$or\<close> of the three regular-expression conditions (one test,
  applied to the title, to the authors and to the abstract), \<^verbatim>\<open>'reads.user'\<close> and
  \<^verbatim>\<open>'metadata.publishYear'\<close>. A key that was not set is \<open>None\<close>.
\<close>

record matchConditions =
  m_or :: "(string \<Rightarrow> bool) option"
  m_reads_user :: "string option"
  m_publishYear :: "int option"

text \<open>
  The conditions are set under \<^verbatim>\<open>if (keyword)\<close>, \<^verbatim>\<open>if (user)\<close> and \<^verbatim>\<open>if (publishYear)\<close>:
  an empty string and the number 0 count as absent. The result is \<open>None\<close> when
  \<^verbatim>\<open>new RegExp\<close> throws.
\<close>

definition build_matchConditions :: "regex_engine \<Rightarrow> search_value \<Rightarrow> matchConditions option" where
  "build_matchConditions engine v =
     (let rest_user = (case v_user v of None \<Rightarrow> None | Some u \<Rightarrow> if u = [] then None else Some u);
          rest_year = (case v_publishYear v of None \<Rightarrow> None
                       | Some y \<Rightarrow> if y = 0 then None else Some y)
      in
        (case v_keyword v of
           None \<Rightarrow> Some \<lparr>m_or = None, m_reads_user = rest_user, m_publishYear = rest_year\<rparr>
         | Some k \<Rightarrow>
             (if k = [] then Some \<lparr>m_or = None, m_reads_user = rest_user, m_publishYear = rest_year\<rparr>
              else
                (case RegExp_i engine k of
                   None \<Rightarrow> None
                 | Some searchRegex \<Rightarrow>
                     Some \<lparr>m_or = Some searchRegex, m_reads_user = rest_user,
                           m_publishYear = rest_year\<rparr>))))"

text \<open>
  A document satisfies \<^verbatim>\<open>$match\<close> when it satisfies every key that is set. A condition on
  the array field \<^verbatim>\<open>metadata.authors\<close> or \<^verbatim>\<open>reads.user\<close> holds when some element
  satisfies it.
\<close>

definition matches :: "matchConditions \<Rightarrow> paper \<Rightarrow> bool" where
  "matches c p =
     ((case m_or c of
         None \<Rightarrow> True
       | Some searchRegex \<Rightarrow>
           searchRegex (title (metadata p)) \<or>
           list_ex searchRegex (authors (metadata p)) \<or>
           searchRegex (abstract (metadata p))) \<and>
      (case m_reads_user c of
         None \<Rightarrow> True
       | Some u \<Rightarrow> list_ex (\<lambda>r. user r = u) (reads p)) \<and>
      (case m_publishYear c of
         None \<Rightarrow> True
       | Some y \<Rightarrow> publishYear (metadata p) = y))"

text \<open>
  The \<^verbatim>\<open>$match\<close> stage is pushed only when some key is set. The \<^verbatim>\<open>$project\<close> stage keeps
  \<^verbatim>\<open>id\<close>, \<^verbatim>\<open>metadata\<close> and \<^verbatim>\<open>reads\<close>, which is all a \<^typ>\<open>paper\<close> has here. The pipeline
  has no \<^verbatim>\<open>$sort\<close> stage: the documents stay in the order in which the store enumerates
  them.
\<close>

definition match_stage :: "matchConditions \<Rightarrow> paper list \<Rightarrow> paper list" where
  "match_stage c docs =
     (if m_or c = None \<and> m_reads_user c = None \<and> m_publishYear c = None then docs
      else filter (matches c) docs)"

record search_result =
  totalCount :: nat
  r_page :: int
  r_limit :: int
  r_papers :: "paper list"

text \<open>The answers: 200 with the result, 400 and 500.\<close>

datatype search_outcome =
    SearchOk search_result
  | SearchInvalid
  | SearchError

text \<open>
  \<^verbatim>\<open>$facet\<close>: \<^verbatim>\<open>$count\<close> over all the documents that reach it (no count document when
  there is none, which the handler reads as 0), and \<^verbatim>\<open>$skip\<close>, \<^verbatim>\<open>$limit\<close> over the same
  documents. The store refuses a negative \<^verbatim>\<open>$skip\<close> and a \<^verbatim>\<open>$limit\<close> that is not positive.
  The product \<open>(page - 1) * limit\<close> is taken exactly; JavaScript rounds it once it is
  past the safe integers, where either value is past the end of any collection.
\<close>

definition facet :: "int \<Rightarrow> int \<Rightarrow> paper list \<Rightarrow> search_outcome" where
  "facet page limit docs =
     (if (page - 1) * limit < 0 \<or> limit \<le> 0 then SearchError
      else SearchOk \<lparr>totalCount = length docs, r_page = page, r_limit = limit,
                     r_papers = take (nat limit) (drop (nat ((page - 1) * limit)) docs)\<rparr>)"

text \<open>The handler's \<^verbatim>\<open>try\<close> block, on the validated value.\<close>

definition search_pipeline :: "regex_engine \<Rightarrow> search_value \<Rightarrow> paper list \<Rightarrow> search_outcome" where
  "search_pipeline engine v docs =
     (case build_matchConditions engine v of
        None \<Rightarrow> SearchError
      | Some c \<Rightarrow> facet (v_page v) (v_limit v) (match_stage c docs))"

definition searchPapers :: "regex_engine \<Rightarrow> search_query \<Rightarrow> server \<Rightarrow> search_outcome" where
  "searchPapers engine q s =
     (case searchSchema q of
        None \<Rightarrow> SearchInvalid
      | Some v \<Rightarrow> search_pipeline engine v (papers s))"

section \<open>Two mark-read requests in flight\<close>

record mark_request =
  rq_user :: string
  rq_now :: nat
  rq_oid :: string
  rq_id :: string
  rq_metadata :: "metadata_body option"
  rq_read :: "read_body option"

text \<open>
  Node runs one handler at a time and switches at an \<^verbatim>\<open>await\<close>. With two requests in
  flight, the second handler can run up to its \<^verbatim>\<open>await Paper.findOne\<close> while the first
  one waits for its own query: both queries are answered from the same store, then the
  first handler checks and saves, then the second.
\<close>

definition markRead_both_find_first ::
  "mark_request \<Rightarrow> mark_request \<Rightarrow> server \<Rightarrow> (mark_outcome \<times> mark_outcome) \<times> server" where
  "markRead_both_find_first r1 r2 s =
     (let f1 = markRead_find (rq_user r1) (rq_now r1) (rq_oid r1) (rq_id r1)
                 (rq_metadata r1) (rq_read r1) s;
          f2 = markRead_find (rq_user r2) (rq_now r2) (rq_oid r2) (rq_id r2)
                 (rq_metadata r2) (rq_read r2) s;
          (o1, s1) = markRead_commit (rq_id r1) (rq_metadata r1) f1 s;
          (o2, s2) = markRead_commit (rq_id r2) (rq_metadata r2) f2 s1
      in ((o1, o2), s2))"

text \<open>The same two requests, the second one served after the first has responded.\<close>

definition markRead_one_after_other ::
  "mark_request \<Rightarrow> mark_request \<Rightarrow> server \<Rightarrow> (mark_outcome \<times> mark_outcome) \<times> server" where
  "markRead_one_after_other r1 r2 s =
     (let (o1, s1) = markRead (rq_user r1) (rq_now r1) (rq_oid r1) (rq_id r1)
                       (rq_metadata r1) (rq_read r1) s;
          (o2, s2) = markRead (rq_user r2) (rq_now r2) (rq_oid r2) (rq_id r2)
                       (rq_metadata r2) (rq_read r2) s1
      in ((o1, o2), s2))"

section \<open>Sample data\<close>

text \<open>
  A store with one paper \<open>P\<close>, read by \<open>A\<close> with the notes \<open>x\<close> and by \<open>B\<close> with the notes
  \<open>y\<close>; the module object's flag is the argument. The requests used below follow.
\<close>

definition sample_metadata :: metadata where
  "sample_metadata =
     \<lparr>title = ''Neural Nets'', authors = [''Ada Byron''], abstract = ''On learning'',
      publishYear = 2020\<rparr>"

definition sample_read_A :: read_entry where
  "sample_read_A =
     \<lparr>entryId = ''64b0f1a2c3d4e5f60718293a'', user = ''A'', timestamp = 1000, read_notes = ''x''\<rparr>"

definition sample_read_B :: read_entry where
  "sample_read_B =
     \<lparr>entryId = ''64b0f1a2c3d4e5f60718293b'', user = ''B'', timestamp = 2000, read_notes = ''y''\<rparr>"

definition sample_paper :: paper where
  "sample_paper =
     \<lparr>paper_id = ''P'', metadata = sample_metadata, reads = [sample_read_A, sample_read_B]\<rparr>"

definition sample_server :: "bool \<Rightarrow> server" where
  "sample_server flag =
     \<lparr>papers = [sample_paper], configDocs = [False],
      config = \<lparr>preventDuplicateReads = flag\<rparr>\<rparr>"

definition sample_metadata_body :: "int option \<Rightarrow> metadata_body option" where
  "sample_metadata_body year =
     Some \<lparr>b_title = Some ''Another Title'', b_authors = Some [''Carl Gauss''],
           b_abstract = Some ''Another abstract'', b_publishYear = year\<rparr>"

definition sample_read_body :: "string \<Rightarrow> string option \<Rightarrow> read_body option" where
  "sample_read_body u n = Some \<lparr>b_user = Some u, b_notes = n\<rparr>"

definition sample_oid :: string where
  "sample_oid = ''64b0f1a2c3d4e5f60718293c''"

definition sample_oid' :: string where
  "sample_oid' = ''64b0f1a2c3d4e5f60718293d''"

text \<open>Two requests of the same user \<open>C\<close>, for the same paper, with the same notes.\<close>

definition sample_request :: "nat \<Rightarrow> string \<Rightarrow> mark_request" where
  "sample_request now oid =
     \<lparr>rq_user = ''C'', rq_now = now, rq_oid = oid, rq_id = ''P'',
      rq_metadata = sample_metadata_body (Some 2020),
      rq_read = sample_read_body ''C'' (Some ''z'')\<rparr>"

text \<open>A second paper, and the two orders in which a store can enumerate the two papers.\<close>

definition sample_paper_Q :: paper where
  "sample_paper_Q =
     \<lparr>paper_id = ''Q'',
      metadata = \<lparr>title = ''Neural Nets'', authors = [''Carl Gauss''], abstract = ''More'',
                  publishYear = 2021\<rparr>,
      reads = [sample_read_B]\<rparr>"

definition sample_server_PQ :: server where
  "sample_server_PQ =
     \<lparr>papers = [sample_paper, sample_paper_Q], configDocs = [False],
      config = \<lparr>preventDuplicateReads = False\<rparr>\<rparr>"

definition sample_server_QP :: server where
  "sample_server_QP =
     \<lparr>papers = [sample_paper_Q, sample_paper], configDocs = [False],
      config = \<lparr>preventDuplicateReads = False\<rparr>\<rparr>"

definition sample_query :: "string option \<Rightarrow> string option \<Rightarrow> int option \<Rightarrow> int \<Rightarrow> int \<Rightarrow> search_query" where
  "sample_query k u y p l =
     \<lparr>q_keyword = k, q_user = u, q_publishYear = y, q_page = Some p, q_limit = Some l\<rparr>"

text \<open>An engine that refuses every pattern it is asked about.\<close>

definition no_engine :: regex_engine where
  "no_engine pattern = None"

section \<open>Facts about the model\<close>

lemmas sample_defs = sample_metadata_def sample_read_A_def sample_read_B_def sample_paper_def
  sample_server_def sample_metadata_body_def sample_read_body_def sample_oid_def sample_oid'_def
  sample_request_def sample_paper_Q_def sample_server_PQ_def sample_server_QP_def sample_query_def
  no_engine_def

lemmas joi_defs = joi_string_required_def joi_safe_def joi_string_array_required_def
  joi_publishYear_required_def metadataSchema_def readSchema_def metadataError_def readError_def

lemmas markRead_defs = markRead_def markRead_find_def markRead_commit_def make_newReadEntry_def
  findOne_def isDuplicate_def PaperSchema_def ReadSchema_def new_metadata_def Let_def

lemmas search_defs = searchPapers_def searchSchema_def joi_string_trim_optional_def
  joi_publishYear_optional_def joi_page_def joi_limit_def joi_safe_def trim_def isWhiteSpace_def
  search_pipeline_def build_matchConditions_def RegExp_i_def plain_def toLowerCase_def
  match_stage_def matches_def facet_def Let_def

subsection \<open>Mark-read\<close>

lemma findOne_Some_id: "findOne pid ps = Some p \<Longrightarrow> paper_id p = pid"
  unfolding findOne_def by (auto simp: find_Some_iff)

lemma findOne_push_read:
  "findOne pid (push_read pid e ps) = map_option (\<lambda>p. p\<lparr>reads := reads p @ [e]\<rparr>) (findOne pid ps)"
  by (induction ps) (simp_all add: findOne_def)

lemma length_push_read: "length (push_read pid e ps) = length ps"
  by (induction ps) simp_all

lemma findOne_None_filter:
  "findOne pid ps = None \<longleftrightarrow> filter (\<lambda>p. paper_id p = pid) ps = []"
  by (auto simp: findOne_def find_None_iff filter_empty_conv)

lemma isDuplicate_iff:
  "isDuplicate rs e \<longleftrightarrow> (\<exists>x\<in>set rs. user x = user e \<and> read_notes x = read_notes e)"
  by (simp add: isDuplicate_def list_ex_iff)

lemma PaperSchema_push:
  "PaperSchema (p\<lparr>reads := reads p @ [e]\<rparr>) \<longleftrightarrow> PaperSchema p \<and> ReadSchema e"
  by (auto simp: PaperSchema_def)

lemma user_make_newReadEntry: "user (make_newReadEntry u now oid n) = u"
  by (simp add: make_newReadEntry_def)

text \<open>
  A valid request for a stored paper, and one for a paper the store does not have.
\<close>

lemma markRead_existing:
  assumes "\<not> metadataError mb" "\<not> readError (Some r)" "b_notes r = Some n"
    and "findOne pid (papers s) = Some P"
  shows "markRead u now oid pid mb (Some r) s =
     (if preventDuplicateReads (config s) \<and> isDuplicate (reads P) (make_newReadEntry u now oid n)
      then (DuplicateRejected, s)
      else if PaperSchema (P\<lparr>reads := reads P @ [make_newReadEntry u now oid n]\<rparr>)
           then (Accepted (P\<lparr>reads := reads P @ [make_newReadEntry u now oid n]\<rparr>),
                 s\<lparr>papers := push_read pid (make_newReadEntry u now oid n) (papers s)\<rparr>)
           else (ServerError, s))"
  using assms by (simp add: markRead_def markRead_find_def markRead_commit_def Let_def)

lemma markRead_new:
  assumes "\<not> metadataError mb" "\<not> readError (Some r)" "b_notes r = Some n"
    and "findOne pid (papers s) = None" and "new_metadata mb = Some m"
  shows "markRead u now oid pid mb (Some r) s =
     (if PaperSchema \<lparr>paper_id = pid, metadata = m, reads = [make_newReadEntry u now oid n]\<rparr>
      then (Accepted \<lparr>paper_id = pid, metadata = m, reads = [make_newReadEntry u now oid n]\<rparr>,
            s\<lparr>papers := papers s @
                 [\<lparr>paper_id = pid, metadata = m, reads = [make_newReadEntry u now oid n]\<rparr>]\<rparr>)
      else (ServerError, s))"
  using assms by (simp add: markRead_def markRead_find_def markRead_commit_def Let_def)

text \<open>
  Whatever the request, a mark-read for a stored paper ends in one of two ways.
\<close>

lemma markRead_cases:
  "markRead u now oid pid mb rb s = (out, s') \<Longrightarrow> findOne pid (papers s) = Some P \<Longrightarrow>
     (\<exists>e. user e = u \<and> out = Accepted (P\<lparr>reads := reads P @ [e]\<rparr>) \<and>
          s' = s\<lparr>papers := push_read pid e (papers s)\<rparr>) \<or>
     (s' = s \<and> (out = DuplicateRejected \<or> out = ValidationFailed \<or> out = ServerError))"
  by (fastforce simp: markRead_def markRead_find_def markRead_commit_def Let_def
      user_make_newReadEntry split: if_splits option.splits)

text \<open>
  The answer \<open>ValidationFailed\<close> is that of the two Joi schemas and of nothing else.
\<close>

lemma markRead_invalid:
  "metadataError mb \<or> readError rb \<Longrightarrow> markRead u now oid pid mb rb s = (ValidationFailed, s)"
  by (simp add: markRead_def markRead_find_def markRead_commit_def)

lemma markRead_valid_not_ValidationFailed:
  "\<not> metadataError mb \<Longrightarrow> \<not> readError rb \<Longrightarrow>
     fst (markRead u now oid pid mb rb s) \<noteq> ValidationFailed"
  by (auto simp: markRead_def markRead_find_def markRead_commit_def Let_def
      split: option.splits)

lemma markRead_Accepted_notes:
  assumes "fst (markRead u now oid pid mb rb s) = Accepted P'"
  shows "\<exists>r n. rb = Some r \<and> b_notes r = Some n \<and> n \<noteq> [] \<and>
           reads P' \<noteq> [] \<and> read_notes (last (reads P')) = n"
proof -
  from assms have v: "\<not> metadataError mb" "\<not> readError rb"
    by (auto simp: markRead_def markRead_find_def markRead_commit_def split: if_splits)
  from assms v obtain r where r: "rb = Some r"
    by (cases rb) (auto simp: markRead_def markRead_find_def markRead_commit_def)
  from v(2) r obtain n where n: "b_notes r = Some n" "n \<noteq> []"
    by (cases "b_notes r") (auto simp: readError_def readSchema_def joi_string_required_def)
  have "reads P' \<noteq> [] \<and> read_notes (last (reads P')) = n"
    using assms v r n
    by (auto simp: markRead_def markRead_find_def markRead_commit_def Let_def
        make_newReadEntry_def split: option.splits if_splits)
  with r n show ?thesis by blast
qed

lemma sample_findOne_P: "findOne ''P'' (papers (sample_server flag)) = Some sample_paper"
  by (simp add: findOne_def sample_server_def sample_paper_def)

subsection \<open>Removal\<close>

text \<open>
  When every paper that satisfies the query has the id \<open>pid\<close>, the update lands on the
  paper that \<open>findOne\<close> returns for \<open>pid\<close>.
\<close>

lemma findOneAndUpdate_at_findOne:
  assumes "findOne pid ps = Some P" and "query P" and "\<And>p. query p \<Longrightarrow> paper_id p = pid"
  shows "\<exists>ps'. findOneAndUpdate query update ps = Some (update P, ps') \<and>
           length ps' = length ps \<and>
           (paper_id (update P) = pid \<longrightarrow> findOne pid ps' = Some (update P))"
  using assms(1,2)
proof (induction ps)
  case Nil
  then show ?case by (simp add: findOne_def)
next
  case (Cons p ps)
  show ?case
  proof (cases "paper_id p = pid")
    case True
    with Cons.prems have "p = P" by (simp add: findOne_def)
    with Cons.prems show ?thesis by (simp add: findOne_def)
  next
    case False
    with assms(3) have nq: "\<not> query p" by blast
    from False Cons.prems have "findOne pid ps = Some P" by (simp add: findOne_def)
    from Cons.IH [OF this Cons.prems(2)] obtain ps' where
      "findOneAndUpdate query update ps = Some (update P, ps')" "length ps' = length ps"
      "paper_id (update P) = pid \<longrightarrow> findOne pid ps' = Some (update P)"
      by blast
    with nq False show ?thesis by (simp add: findOne_def)
  qed
qed

lemmas cast_defs = castObjectId_def isHexDigit_def hexToLower_def

lemma castObjectId_Some_nonempty: "castObjectId str = Some oid \<Longrightarrow> str \<noteq> []"
  by (auto simp: castObjectId_def split: if_splits)

lemma paper_id_pull [simp]: "paper_id (pull cond p) = paper_id p"
  by (simp add: pull_def)

lemma metadata_pull [simp]: "metadata (pull cond p) = metadata p"
  by (simp add: pull_def)

lemma reads_pull [simp]: "reads (pull cond p) = filter (\<lambda>r. \<not> cond r) (reads p)"
  by (simp add: pull_def)

subsection \<open>Search\<close>

lemma startsWith_iff: "startsWith text pattern \<longleftrightarrow> (\<exists>b. text = pattern @ b)"
  by (induction "text" "pattern" rule: startsWith.induct) auto

lemma str_includes_iff: "str_includes text pattern \<longleftrightarrow> (\<exists>a b. text = a @ pattern @ b)"
proof (induction "text")
  case Nil
  then show ?case by auto
next
  case (Cons t ts)
  have "(\<exists>a b. t # ts = a @ pattern @ b) \<longleftrightarrow>
        (\<exists>b. t # ts = pattern @ b) \<or> (\<exists>a b. ts = a @ pattern @ b)"
  proof
    assume "\<exists>a b. t # ts = a @ pattern @ b"
    then obtain a b where ab: "t # ts = a @ pattern @ b" by blast
    show "(\<exists>b. t # ts = pattern @ b) \<or> (\<exists>a b. ts = a @ pattern @ b)"
    proof (cases a)
      case Nil
      with ab show ?thesis by auto
    next
      case (Cons x a')
      with ab have "ts = a' @ pattern @ b" by simp
      then show ?thesis by blast
    qed
  next
    assume "(\<exists>b. t # ts = pattern @ b) \<or> (\<exists>a b. ts = a @ pattern @ b)"
    then show "\<exists>a b. t # ts = a @ pattern @ b"
    proof
      assume "\<exists>b. t # ts = pattern @ b"
      then obtain b where "t # ts = [] @ pattern @ b" by auto
      then show ?thesis by blast
    next
      assume "\<exists>a b. ts = a @ pattern @ b"
      then obtain a b where "t # ts = (t # a) @ pattern @ b" by auto
      then show ?thesis by blast
    qed
  qed
  with Cons show ?case by (simp add: startsWith_iff)
qed

lemma RegExp_i_plain:
  "plain k \<Longrightarrow> RegExp_i engine k =
     Some (\<lambda>text. \<exists>a b. map toLowerCase text = a @ map toLowerCase k @ b)"
  by (simp add: RegExp_i_def str_includes_iff)

lemma searchSchema_fields:
  assumes "searchSchema q = Some v"
  shows "joi_string_trim_optional (q_keyword q) = Some (v_keyword v)"
    and "joi_string_trim_optional (q_user q) = Some (v_user v)"
    and "joi_publishYear_optional (q_publishYear q) = Some (v_publishYear v)"
    and "joi_page (q_page q) = Some (v_page v)"
    and "joi_limit (q_limit q) = Some (v_limit v)"
proof -
  from assms obtain k u y p l where
    *: "joi_string_trim_optional (q_keyword q) = Some k"
       "joi_string_trim_optional (q_user q) = Some u"
       "joi_publishYear_optional (q_publishYear q) = Some y"
       "joi_page (q_page q) = Some p" "joi_limit (q_limit q) = Some l"
    by (simp add: searchSchema_def split: option.splits)
  with assms have "v = \<lparr>v_keyword = k, v_user = u, v_publishYear = y, v_page = p, v_limit = l\<rparr>"
    by (simp add: searchSchema_def)
  with * show "joi_string_trim_optional (q_keyword q) = Some (v_keyword v)"
    and "joi_string_trim_optional (q_user q) = Some (v_user v)"
    and "joi_publishYear_optional (q_publishYear q) = Some (v_publishYear v)"
    and "joi_page (q_page q) = Some (v_page v)"
    and "joi_limit (q_limit q) = Some (v_limit v)"
    by simp_all
qed

lemma joi_string_trim_optional_SomeD:
  "joi_string_trim_optional x = Some y \<Longrightarrow> y = map_option trim x \<and> y \<noteq> Some []"
  by (cases x) (auto simp: joi_string_trim_optional_def split: if_splits)

lemma joi_publishYear_optional_SomeD:
  "joi_publishYear_optional x = Some y \<Longrightarrow> y = x \<and> y \<noteq> Some 0"
  by (cases x) (auto simp: joi_publishYear_optional_def split: if_splits)

lemma joi_page_SomeD: "joi_page x = Some p \<Longrightarrow> 1 \<le> p"
  by (cases x) (auto simp: joi_page_def split: if_splits)

lemma joi_limit_SomeD: "joi_limit x = Some l \<Longrightarrow> 1 \<le> l \<and> l \<le> 50"
  by (cases x) (auto simp: joi_limit_def split: if_splits)

lemma searchSchema_SomeD:
  assumes "searchSchema q = Some v"
  shows "v_keyword v = map_option trim (q_keyword q)"
    and "v_user v = map_option trim (q_user q)"
    and "v_publishYear v = q_publishYear q"
    and "v_keyword v \<noteq> Some []" and "v_user v \<noteq> Some []" and "v_publishYear v \<noteq> Some 0"
    and "joi_page (q_page q) = Some (v_page v)" and "joi_limit (q_limit q) = Some (v_limit v)"
    and "1 \<le> v_page v" and "1 \<le> v_limit v" and "v_limit v \<le> 50"
proof -
  note f = searchSchema_fields [OF assms]
  note k = joi_string_trim_optional_SomeD [OF f(1)]
  note u = joi_string_trim_optional_SomeD [OF f(2)]
  note y = joi_publishYear_optional_SomeD [OF f(3)]
  note p = joi_page_SomeD [OF f(4)]
  note l = joi_limit_SomeD [OF f(5)]
  show "v_keyword v = map_option trim (q_keyword q)" and "v_keyword v \<noteq> Some []"
    using k by blast+
  show "v_user v = map_option trim (q_user q)" and "v_user v \<noteq> Some []"
    using u by blast+
  show "v_publishYear v = q_publishYear q" and "v_publishYear v \<noteq> Some 0"
    using y by blast+
  show "joi_page (q_page q) = Some (v_page v)" and "joi_limit (q_limit q) = Some (v_limit v)"
    by (rule f(4), rule f(5))
  show "1 \<le> v_page v" by (rule p)
  show "1 \<le> v_limit v" and "v_limit v \<le> 50"
    using l by blast+
qed

lemma build_matchConditions_SomeD:
  assumes "v_keyword v \<noteq> Some []" "v_user v \<noteq> Some []" "v_publishYear v \<noteq> Some 0"
    and "build_matchConditions engine v = Some c"
  shows "m_reads_user c = v_user v" and "m_publishYear c = v_publishYear v"
    and "m_or c = (case v_keyword v of None \<Rightarrow> None | Some k \<Rightarrow> RegExp_i engine k)"
    and "v_keyword v = None \<longleftrightarrow> m_or c = None"
  using assms
  by (auto simp: build_matchConditions_def Let_def split: option.splits if_splits)

lemma build_matchConditions_page_limit:
  "build_matchConditions engine (v\<lparr>v_page := p, v_limit := l\<rparr>) = build_matchConditions engine v"
  by (simp add: build_matchConditions_def)

lemma searchPapers_OkD:
  assumes "searchPapers engine q s = SearchOk res"
  shows "\<exists>v c. searchSchema q = Some v \<and> build_matchConditions engine v = Some c \<and>
           res = \<lparr>totalCount = length (match_stage c (papers s)), r_page = v_page v,
                  r_limit = v_limit v,
                  r_papers = take (nat (v_limit v))
                    (drop (nat ((v_page v - 1) * v_limit v)) (match_stage c (papers s)))\<rparr>"
  using assms
  by (auto simp: searchPapers_def search_pipeline_def facet_def split: option.splits if_splits)

lemma searchPapers_OkI:
  assumes "searchSchema q = Some v" "build_matchConditions engine v = Some c"
  shows "searchPapers engine q s =
           SearchOk \<lparr>totalCount = length (match_stage c (papers s)), r_page = v_page v,
                  r_limit = v_limit v,
                  r_papers = take (nat (v_limit v))
                    (drop (nat ((v_page v - 1) * v_limit v)) (match_stage c (papers s)))\<rparr>"
proof -
  have "0 \<le> (v_page v - 1) * v_limit v" "0 < v_limit v"
    using searchSchema_SomeD(9,10) [OF assms(1)] by simp_all
  then show ?thesis
    using assms by (simp add: searchPapers_def search_pipeline_def facet_def)
qed

lemma searchSchema_page_limit:
  assumes "searchSchema q = Some v" "joi_page pg = Some p" "joi_limit lm = Some l"
  shows "searchSchema (q\<lparr>q_page := pg, q_limit := lm\<rparr>) = Some (v\<lparr>v_page := p, v_limit := l\<rparr>)"
proof -
  note f = searchSchema_fields [OF assms(1)]
  have "v = \<lparr>v_keyword = v_keyword v, v_user = v_user v, v_publishYear = v_publishYear v,
             v_page = v_page v, v_limit = v_limit v\<rparr>"
    by simp
  then have "v\<lparr>v_page := p, v_limit := l\<rparr> =
      \<lparr>v_keyword = v_keyword v, v_user = v_user v, v_publishYear = v_publishYear v,
       v_page = p, v_limit = l\<rparr>"
    by (metis search_value.update_convs(4) search_value.update_convs(5))
  then show ?thesis
    using f(1,2,3) assms(2,3) by (simp add: searchSchema_def)
qed

lemma match_stage_iff:
  "p \<in> set (match_stage c docs) \<longleftrightarrow> p \<in> set docs \<and> matches c p"
  by (auto simp: match_stage_def matches_def)

lemma match_stage_matches: "match_stage c docs = filter (matches c) docs"
proof (cases "m_or c = None \<and> m_reads_user c = None \<and> m_publishYear c = None")
  case True
  then have "matches c p" for p
    by (simp add: matches_def)
  then have "filter (matches c) docs = docs"
    by simp
  with True show ?thesis
    by (simp add: match_stage_def)
next
  case False
  then show ?thesis
    unfolding match_stage_def by (simp only: if_False)
qed

lemma joi_page_value: "joi_page x = Some p \<Longrightarrow> p = (case x of None \<Rightarrow> 1 | Some n \<Rightarrow> n)"
  by (cases x) (auto simp: joi_page_def split: if_splits)

lemma joi_limit_value: "joi_limit x = Some l \<Longrightarrow> l = (case x of None \<Rightarrow> 10 | Some n \<Rightarrow> n)"
  by (cases x) (auto simp: joi_limit_def split: if_splits)

text \<open>
  The sample searches, evaluated.
\<close>

lemma search_neural_2020:
  "searchPapers no_engine (sample_query (Some '' neural '') None (Some 2020) 1 10) sample_server_PQ
     = SearchOk \<lparr>totalCount = 1, r_page = 1, r_limit = 10, r_papers = [sample_paper]\<rparr>"
  by (simp add: search_defs sample_defs)

lemma search_all_page1:
  "searchPapers no_engine (sample_query None None None 1 1) sample_server_PQ
     = SearchOk \<lparr>totalCount = 2, r_page = 1, r_limit = 1, r_papers = [sample_paper]\<rparr>"
  by (simp add: search_defs sample_defs)

lemma search_all_page1_QP:
  "searchPapers no_engine (sample_query None None None 1 1) sample_server_QP
     = SearchOk \<lparr>totalCount = 2, r_page = 1, r_limit = 1, r_papers = [sample_paper_Q]\<rparr>"
  by (simp add: search_defs sample_defs)

lemma search_all_page4:
  "searchPapers no_engine (sample_query None None None 4 1) sample_server_PQ
     = SearchOk \<lparr>totalCount = 2, r_page = 4, r_limit = 1, r_papers = []\<rparr>"
  by (simp add: search_defs sample_defs)

section \<open>The configuration flag\<close>

text \<open>
  The administrator's route writes the \<^verbatim>\<open>Config\<close> collection and \<^verbatim>\<open>GET /config\<close> reads it
  back at once.
\<close>

theorem getConfig_after_setConfig:
  "getConfig (snd (setConfig (Some v) s)) = v"
  by (simp add: setConfig_def getConfig_def split: list.splits)

text \<open>
  Mark-read reads the module object, which the administrator's route leaves alone: what
  a mark-read answers is the same after a configuration update as before it.
\<close>

lemma markRead_ignores_setConfig:
  "fst (markRead u now oid pid mb rb (snd (setConfig body s))) = fst (markRead u now oid pid mb rb s)"
  by (cases body)
     (auto simp: setConfig_def markRead_def markRead_find_def markRead_commit_def Let_def
       split: option.splits mark_pending.splits)

text \<open>
  Claim C1, at a concrete input. The module object's flag is off and paper \<open>P\<close> holds a
  read of \<open>A\<close> with notes \<open>x\<close>. The configuration update to \<open>True\<close> succeeds and
  \<open>getConfig\<close> returns \<open>True\<close>, yet the module object's flag is still off, and the
  mark-read of \<open>A\<close> with notes \<open>x\<close> that follows, a duplicate, is accepted. The other
  way round: with the module object's flag on, after the update to \<open>False\<close> the
  same mark-read is still rejected as a duplicate.
\<close>

theorem setConfig_not_read_by_markRead:
  "fst (setConfig (Some True) (sample_server False)) = ConfigOk True \<and>
   getConfig (snd (setConfig (Some True) (sample_server False))) = True \<and>
   preventDuplicateReads (config (snd (setConfig (Some True) (sample_server False)))) = False \<and>
   isDuplicate (reads sample_paper) (make_newReadEntry ''A'' 5 sample_oid ''x'') \<and>
   fst (markRead ''A'' 5 sample_oid ''P'' (sample_metadata_body (Some 2020))
          (sample_read_body ''A'' (Some ''x''))
          (snd (setConfig (Some True) (sample_server False))))
     = Accepted (sample_paper\<lparr>reads := reads sample_paper @
                  [make_newReadEntry ''A'' 5 sample_oid ''x'']\<rparr>) \<and>
   fst (setConfig (Some False) (sample_server True)) = ConfigOk False \<and>
   getConfig (snd (setConfig (Some False) (sample_server True))) = False \<and>
   fst (markRead ''A'' 5 sample_oid ''P'' (sample_metadata_body (Some 2020))
          (sample_read_body ''A'' (Some ''x''))
          (snd (setConfig (Some False) (sample_server True))))
     = DuplicateRejected"
  by (simp add: sample_defs joi_defs markRead_defs setConfig_def getConfig_def)

section \<open>The duplicate policy\<close>

text \<open>
  Claim C2. The candidate's user is the authenticated identity \<open>u\<close>
  (\<^verbatim>\<open>req.user.id\<close>), its notes the body's \<open>n\<close>. Let the request be valid and its paper
  \<open>P\<close> be stored. With the flag on and a read of user \<open>u\<close> and notes \<open>n\<close> in \<open>P\<close>,
  the answer is \<open>DuplicateRejected\<close> and the server is unchanged. With the flag off, or
  with no read whose user and notes both equal the candidate's (equality of strings, so
  letter case counts), and \<open>P\<close> well-formed, the answer is \<open>Accepted\<close> and the stored
  paper has exactly one more read.
\<close>

theorem markRead_duplicate_policy:
  assumes valid: "\<not> metadataError mb" "\<not> readError (Some r)"
    and n: "b_notes r = Some n"
    and found: "findOne pid (papers s) = Some P"
  shows "(preventDuplicateReads (config s) \<and>
          (\<exists>x\<in>set (reads P). user x = u \<and> read_notes x = n)
            \<longrightarrow> markRead u now oid pid mb (Some r) s = (DuplicateRejected, s)) \<and>
         ((\<not> preventDuplicateReads (config s) \<or>
           \<not> (\<exists>x\<in>set (reads P). user x = u \<and> read_notes x = n)) \<and>
          PaperSchema P \<and> u \<noteq> []
            \<longrightarrow> fst (markRead u now oid pid mb (Some r) s)
                  = Accepted (P\<lparr>reads := reads P @ [make_newReadEntry u now oid n]\<rparr>) \<and>
               findOne pid (papers (snd (markRead u now oid pid mb (Some r) s)))
                  = Some (P\<lparr>reads := reads P @ [make_newReadEntry u now oid n]\<rparr>) \<and>
               length (reads (P\<lparr>reads := reads P @ [make_newReadEntry u now oid n]\<rparr>))
                  = length (reads P) + 1)"
proof -
  let ?e = "make_newReadEntry u now oid n"
  have nn: "n \<noteq> []"
    using valid(2) n by (simp add: readError_def readSchema_def joi_string_required_def)
  have dup: "isDuplicate (reads P) ?e \<longleftrightarrow> (\<exists>x\<in>set (reads P). user x = u \<and> read_notes x = n)"
    by (simp add: isDuplicate_iff make_newReadEntry_def)
  note run = markRead_existing [OF valid n found, of u now oid]
  have rejected: "preventDuplicateReads (config s) \<and>
          (\<exists>x\<in>set (reads P). user x = u \<and> read_notes x = n)
            \<longrightarrow> markRead u now oid pid mb (Some r) s = (DuplicateRejected, s)"
    using dup by (simp add: run)
  have accepted: "(\<not> preventDuplicateReads (config s) \<or>
           \<not> (\<exists>x\<in>set (reads P). user x = u \<and> read_notes x = n)) \<and>
          PaperSchema P \<and> u \<noteq> []
            \<longrightarrow> fst (markRead u now oid pid mb (Some r) s)
                  = Accepted (P\<lparr>reads := reads P @ [?e]\<rparr>) \<and>
               findOne pid (papers (snd (markRead u now oid pid mb (Some r) s)))
                  = Some (P\<lparr>reads := reads P @ [?e]\<rparr>) \<and>
               length (reads (P\<lparr>reads := reads P @ [?e]\<rparr>)) = length (reads P) + 1"
  proof
    assume h: "(\<not> preventDuplicateReads (config s) \<or>
           \<not> (\<exists>x\<in>set (reads P). user x = u \<and> read_notes x = n)) \<and>
          PaperSchema P \<and> u \<noteq> []"
    then have ok: "PaperSchema (P\<lparr>reads := reads P @ [?e]\<rparr>)"
      using nn by (simp add: PaperSchema_push ReadSchema_def make_newReadEntry_def)
    from h dup ok found
    show "fst (markRead u now oid pid mb (Some r) s)
                  = Accepted (P\<lparr>reads := reads P @ [?e]\<rparr>) \<and>
               findOne pid (papers (snd (markRead u now oid pid mb (Some r) s)))
                  = Some (P\<lparr>reads := reads P @ [?e]\<rparr>) \<and>
               length (reads (P\<lparr>reads := reads P @ [?e]\<rparr>)) = length (reads P) + 1"
      by (auto simp: run findOne_push_read)
  qed
  from rejected accepted show ?thesis by (rule conjI)
qed

text \<open>
  The sample store: \<open>A\<close> marks \<open>P\<close> again with the notes \<open>x\<close>, flag on and flag off, and
  with the notes \<open>X\<close>, flag on.
\<close>

theorem markRead_duplicate_policy_witness:
  "markRead ''A'' 5 sample_oid ''P'' (sample_metadata_body (Some 2020))
      (sample_read_body ''A'' (Some ''x'')) (sample_server True)
     = (DuplicateRejected, sample_server True) \<and>
   fst (markRead ''A'' 5 sample_oid ''P'' (sample_metadata_body (Some 2020))
      (sample_read_body ''A'' (Some ''x'')) (sample_server False))
     = Accepted (sample_paper\<lparr>reads := reads sample_paper @
                  [make_newReadEntry ''A'' 5 sample_oid ''x'']\<rparr>) \<and>
   fst (markRead ''A'' 5 sample_oid ''P'' (sample_metadata_body (Some 2020))
      (sample_read_body ''A'' (Some ''X'')) (sample_server True))
     = Accepted (sample_paper\<lparr>reads := reads sample_paper @
                  [make_newReadEntry ''A'' 5 sample_oid ''X'']\<rparr>)"
proof -
  have mb: "\<not> metadataError (sample_metadata_body (Some 2020))"
    by (simp add: sample_metadata_body_def joi_defs)
  have rb: "\<not> readError (Some \<lparr>b_user = Some ''A'', b_notes = Some n\<rparr>)" if "n \<noteq> []" for n
    using that by (simp add: joi_defs)
  have found: "findOne ''P'' (papers (sample_server flag)) = Some sample_paper" for flag
    by (simp add: findOne_def sample_server_def sample_paper_def)
  have stored: "PaperSchema sample_paper"
    by (simp add: PaperSchema_def ReadSchema_def sample_paper_def sample_metadata_def
        sample_read_A_def sample_read_B_def)
  have rs: "reads sample_paper = [sample_read_A, sample_read_B]"
    by (simp add: sample_paper_def)
  note t = markRead_duplicate_policy [OF mb rb _ found, where u = "''A''" and now = 5
      and oid = sample_oid]
  from t [of "''x''" "''x''" True] t [of "''x''" "''x''" False] t [of "''X''" "''X''" True] stored
  show ?thesis
    by (simp add: sample_read_body_def sample_server_def rs sample_read_A_def sample_read_B_def)
qed

section \<open>Two mark-read requests at once\<close>

text \<open>
  Two valid requests of one user with the same notes, for a stored paper that has no such
  read yet: when both queries are answered before either save, both are accepted.
\<close>

lemma markRead_race_general:
  assumes "findOne pid (papers s) = Some P" and "PaperSchema P" and "u \<noteq> []"
    and "\<not> metadataError mb" and "\<not> readError (Some r)" and "b_notes r = Some n"
    and "\<not> isDuplicate (reads P) (make_newReadEntry u now oid n)"
  shows "fst (markRead_both_find_first
            \<lparr>rq_user = u, rq_now = now, rq_oid = oid, rq_id = pid, rq_metadata = mb,
             rq_read = Some r\<rparr>
            \<lparr>rq_user = u, rq_now = now', rq_oid = oid', rq_id = pid, rq_metadata = mb,
             rq_read = Some r\<rparr> s)
         = (Accepted (P\<lparr>reads := reads P @ [make_newReadEntry u now oid n]\<rparr>),
            Accepted (P\<lparr>reads := reads P @ [make_newReadEntry u now' oid' n]\<rparr>))"
proof -
  have nn: "n \<noteq> []"
    using assms(5,6) by (simp add: readError_def readSchema_def joi_string_required_def)
  have ok: "PaperSchema (P\<lparr>reads := reads P @ [make_newReadEntry u t i n]\<rparr>)" for t i
    using assms(2,3) nn by (simp add: PaperSchema_push ReadSchema_def make_newReadEntry_def)
  have nd: "\<not> isDuplicate (reads P) (make_newReadEntry u t i n)" for t i
    using assms(7) by (simp add: isDuplicate_def make_newReadEntry_def)
  show ?thesis
    using assms(1,4,5,6) ok nd
    by (simp add: markRead_both_find_first_def markRead_find_def markRead_commit_def Let_def)
qed

text \<open>
  Claim C3, at a concrete input. The flag is on; user \<open>C\<close> sends two mark-read requests
  for paper \<open>P\<close> with the notes \<open>z\<close>. When both handlers get their query answered before
  either saves, both answers are \<open>Accepted\<close> and the stored paper ends with two reads of
  \<open>C\<close> with notes \<open>z\<close>. Served one after the other, the second is \<open>DuplicateRejected\<close>.
\<close>

theorem markRead_race_both_accepted:
  "fst (markRead_both_find_first (sample_request 5 sample_oid) (sample_request 6 sample_oid')
         (sample_server True))
     = (Accepted (sample_paper\<lparr>reads := reads sample_paper @
                    [make_newReadEntry ''C'' 5 sample_oid ''z'']\<rparr>),
        Accepted (sample_paper\<lparr>reads := reads sample_paper @
                    [make_newReadEntry ''C'' 6 sample_oid' ''z'']\<rparr>)) \<and>
   map reads (papers (snd (markRead_both_find_first (sample_request 5 sample_oid)
         (sample_request 6 sample_oid') (sample_server True))))
     = [reads sample_paper @ [make_newReadEntry ''C'' 5 sample_oid ''z'',
                              make_newReadEntry ''C'' 6 sample_oid' ''z'']] \<and>
   fst (markRead_one_after_other (sample_request 5 sample_oid) (sample_request 6 sample_oid')
         (sample_server True))
     = (Accepted (sample_paper\<lparr>reads := reads sample_paper @
                    [make_newReadEntry ''C'' 5 sample_oid ''z'']\<rparr>),
        DuplicateRejected)"
  by (simp add: sample_defs joi_defs markRead_defs markRead_both_find_first_def
      markRead_one_after_other_def)

section \<open>Creating a paper, and marking it again\<close>

text \<open>
  Claim C4. A valid mark-read on an id the store has never seen creates the paper: the
  answer is \<open>Accepted\<close>, the store gains exactly that one paper at its end, with the
  metadata of the request and a \<open>reads\<close> list of the one new entry, and it is the only
  paper of that id. A mark-read on an id the store has, whatever metadata and read the
  request carries, leaves the stored metadata and the number of papers as they were: when
  it is accepted the stored paper has one more read, by the requesting user, at the end;
  otherwise the store is untouched.
\<close>

theorem markRead_upsert_metadata:
  "(findOne pid (papers s) = None \<and> pid \<noteq> [] \<and> u \<noteq> [] \<and>
    mb = Some \<lparr>b_title = Some t, b_authors = Some a, b_abstract = Some ab, b_publishYear = Some y\<rparr> \<and>
    \<not> metadataError mb \<and> \<not> readError (Some r) \<and> b_notes r = Some n
    \<longrightarrow> markRead u now oid pid mb (Some r) s =
          (Accepted \<lparr>paper_id = pid,
                     metadata = \<lparr>title = t, authors = a, abstract = ab, publishYear = y\<rparr>,
                     reads = [make_newReadEntry u now oid n]\<rparr>,
           s\<lparr>papers := papers s @
                [\<lparr>paper_id = pid,
                  metadata = \<lparr>title = t, authors = a, abstract = ab, publishYear = y\<rparr>,
                  reads = [make_newReadEntry u now oid n]\<rparr>]\<rparr>) \<and>
        length (filter (\<lambda>p. paper_id p = pid)
                 (papers (snd (markRead u now oid pid mb (Some r) s)))) = 1) \<and>
   (findOne pid (papers s) = Some P
    \<longrightarrow> (\<exists>P'. findOne pid (papers (snd (markRead u now oid pid mb' rb' s))) = Some P' \<and>
              metadata P' = metadata P \<and>
              length (papers (snd (markRead u now oid pid mb' rb' s))) = length (papers s) \<and>
              (case fst (markRead u now oid pid mb' rb' s) of
                 Accepted R \<Rightarrow> R = P' \<and> (\<exists>e. user e = u \<and> reads P' = reads P @ [e])
               | _ \<Rightarrow> P' = P \<and> snd (markRead u now oid pid mb' rb' s) = s)))"
proof (intro conjI impI)
  assume h: "findOne pid (papers s) = None \<and> pid \<noteq> [] \<and> u \<noteq> [] \<and>
    mb = Some \<lparr>b_title = Some t, b_authors = Some a, b_abstract = Some ab, b_publishYear = Some y\<rparr> \<and>
    \<not> metadataError mb \<and> \<not> readError (Some r) \<and> b_notes r = Some n"
  let ?m = "\<lparr>title = t, authors = a, abstract = ab, publishYear = y\<rparr>"
  let ?p = "\<lparr>paper_id = pid, metadata = ?m, reads = [make_newReadEntry u now oid n]\<rparr>"
  have nm: "new_metadata mb = Some ?m"
    using h by (simp add: new_metadata_def)
  have ok: "PaperSchema ?p"
    using h by (auto simp: PaperSchema_def ReadSchema_def make_newReadEntry_def joi_defs)
  from h have pre: "\<not> metadataError mb" "\<not> readError (Some r)" "b_notes r = Some n"
    "findOne pid (papers s) = None"
    by blast+
  have run: "markRead u now oid pid mb (Some r) s = (Accepted ?p, s\<lparr>papers := papers s @ [?p]\<rparr>)"
    by (simp add: markRead_new [OF pre nm] ok)
  show "markRead u now oid pid mb (Some r) s = (Accepted ?p, s\<lparr>papers := papers s @ [?p]\<rparr>)"
    by (rule run)
  have "filter (\<lambda>p. paper_id p = pid) (papers s) = []"
    using h by (simp add: findOne_None_filter)
  then show "length (filter (\<lambda>p. paper_id p = pid)
                 (papers (snd (markRead u now oid pid mb (Some r) s)))) = 1"
    by (simp add: run)
next
  assume found: "findOne pid (papers s) = Some P"
  obtain out s' where run: "markRead u now oid pid mb' rb' s = (out, s')"
    by (cases "markRead u now oid pid mb' rb' s")
  from markRead_cases [OF run found]
  show "\<exists>P'. findOne pid (papers (snd (markRead u now oid pid mb' rb' s))) = Some P' \<and>
              metadata P' = metadata P \<and>
              length (papers (snd (markRead u now oid pid mb' rb' s))) = length (papers s) \<and>
              (case fst (markRead u now oid pid mb' rb' s) of
                 Accepted R \<Rightarrow> R = P' \<and> (\<exists>e. user e = u \<and> reads P' = reads P @ [e])
               | _ \<Rightarrow> P' = P \<and> snd (markRead u now oid pid mb' rb' s) = s)"
    using found by (auto simp: run findOne_push_read length_push_read)
qed

text \<open>
  The sample store: \<open>A\<close> marks the unseen \<open>Z\<close>; \<open>C\<close> marks the stored \<open>P\<close> with other
  metadata, of the year 1999 and of the year 2024.
\<close>

theorem markRead_upsert_metadata_witness:
  "markRead ''A'' 5 sample_oid ''Z'' (sample_metadata_body (Some 2020))
      (sample_read_body ''A'' (Some ''x'')) (sample_server True)
     = (Accepted \<lparr>paper_id = ''Z'',
                  metadata = \<lparr>title = ''Another Title'', authors = [''Carl Gauss''],
                              abstract = ''Another abstract'', publishYear = 2020\<rparr>,
                  reads = [make_newReadEntry ''A'' 5 sample_oid ''x'']\<rparr>,
        (sample_server True)\<lparr>papers := papers (sample_server True) @
           [\<lparr>paper_id = ''Z'',
             metadata = \<lparr>title = ''Another Title'', authors = [''Carl Gauss''],
                         abstract = ''Another abstract'', publishYear = 2020\<rparr>,
             reads = [make_newReadEntry ''A'' 5 sample_oid ''x'']\<rparr>]\<rparr>) \<and>
   (\<exists>P'. findOne ''P'' (papers (snd (markRead ''C'' 6 sample_oid' ''P''
             (sample_metadata_body (Some 1999)) (sample_read_body ''C'' (Some ''z''))
             (sample_server True)))) = Some P' \<and>
         metadata P' = sample_metadata) \<and>
   (\<exists>P'. findOne ''P'' (papers (snd (markRead ''C'' 6 sample_oid' ''P''
             (sample_metadata_body (Some 2024)) (sample_read_body ''C'' (Some ''z''))
             (sample_server True)))) = Some P' \<and>
         metadata P' = sample_metadata \<and> length (reads P') = 3)"
proof -
  have found: "findOne ''P'' (papers (sample_server True)) = Some sample_paper"
    by (simp add: findOne_def sample_server_def sample_paper_def)
  have none: "findOne ''Z'' (papers (sample_server True)) = None"
    by (simp add: findOne_def sample_server_def sample_paper_def)
  have acc: "fst (markRead ''C'' 6 sample_oid' ''P''
             (sample_metadata_body (Some 2024)) (sample_read_body ''C'' (Some ''z''))
             (sample_server True)) =
          Accepted (sample_paper\<lparr>reads := reads sample_paper @
                  [make_newReadEntry ''C'' 6 sample_oid' ''z'']\<rparr>)"
    by (simp add: sample_defs joi_defs markRead_defs)
  have m: "metadata sample_paper = sample_metadata" "length (reads sample_paper) = 2"
    by (simp_all add: sample_paper_def)
  note t1 = markRead_upsert_metadata [where pid = "''Z''" and s = "sample_server True"
      and u = "''A''" and mb = "sample_metadata_body (Some 2020)" and t = "''Another Title''"
      and a = "[''Carl Gauss'']" and ab = "''Another abstract''" and y = 2020
      and r = "\<lparr>b_user = Some ''A'', b_notes = Some ''x''\<rparr>" and n = "''x''" and now = 5
      and oid = sample_oid]
  note t2 = markRead_upsert_metadata [where pid = "''P''" and s = "sample_server True"
      and u = "''C''" and now = 6 and oid = sample_oid' and P = sample_paper
      and rb' = "sample_read_body ''C'' (Some ''z'')"]
  have first: "markRead ''A'' 5 sample_oid ''Z'' (sample_metadata_body (Some 2020))
      (sample_read_body ''A'' (Some ''x'')) (sample_server True)
     = (Accepted \<lparr>paper_id = ''Z'',
                  metadata = \<lparr>title = ''Another Title'', authors = [''Carl Gauss''],
                              abstract = ''Another abstract'', publishYear = 2020\<rparr>,
                  reads = [make_newReadEntry ''A'' 5 sample_oid ''x'']\<rparr>,
        (sample_server True)\<lparr>papers := papers (sample_server True) @
           [\<lparr>paper_id = ''Z'',
             metadata = \<lparr>title = ''Another Title'', authors = [''Carl Gauss''],
                         abstract = ''Another abstract'', publishYear = 2020\<rparr>,
             reads = [make_newReadEntry ''A'' 5 sample_oid ''x'']\<rparr>]\<rparr>)"
    using t1 none
    by (simp add: sample_metadata_body_def sample_read_body_def joi_defs)
  have second: "\<exists>P'. findOne ''P'' (papers (snd (markRead ''C'' 6 sample_oid' ''P''
             (sample_metadata_body (Some 1999)) (sample_read_body ''C'' (Some ''z''))
             (sample_server True)))) = Some P' \<and>
         metadata P' = sample_metadata"
    using t2 [where mb' = "sample_metadata_body (Some 1999)"] found m
    by auto
  have third: "\<exists>P'. findOne ''P'' (papers (snd (markRead ''C'' 6 sample_oid' ''P''
             (sample_metadata_body (Some 2024)) (sample_read_body ''C'' (Some ''z''))
             (sample_server True)))) = Some P' \<and>
         metadata P' = sample_metadata \<and> length (reads P') = 3"
    using t2 [where mb' = "sample_metadata_body (Some 2024)"] found m acc
    by auto
  from first second third show ?thesis by blast
qed

section \<open>Removing a read\<close>

text \<open>
  Claim C5, at a concrete input. Paper \<open>P\<close> holds the read of \<open>A\<close> and the read of \<open>B\<close>.
  User \<open>B\<close> asks to remove the entry of \<open>A\<close>: the query finds \<open>P\<close>, since some read has
  that entry id and some read has user \<open>B\<close>; the pull removes nothing, since no single
  read has both; and the answer is \<open>Removed\<close> with the paper as it was, not \<open>NotFound\<close>.
  A user \<open>C\<close> with no read in \<open>P\<close> gets \<open>NotFound\<close>, and \<open>A\<close> removes the entry.
\<close>

theorem removeRead_other_user_reports_removed:
  "removeRead ''B'' \<lparr>d_id = Some ''P'', d_readEntryId = Some (entryId sample_read_A)\<rparr>
      (sample_server False)
     = (Removed sample_paper, sample_server False) \<and>
   user sample_read_A = ''A'' \<and>
   reads sample_paper = [sample_read_A, sample_read_B] \<and>
   removeRead ''C'' \<lparr>d_id = Some ''P'', d_readEntryId = Some (entryId sample_read_A)\<rparr>
      (sample_server False)
     = (NotFound, sample_server False) \<and>
   fst (removeRead ''A'' \<lparr>d_id = Some ''P'', d_readEntryId = Some (entryId sample_read_A)\<rparr>
      (sample_server False))
     = Removed (sample_paper\<lparr>reads := [sample_read_B]\<rparr>)"
  by (simp add: sample_defs removeRead_def joi_string_required_def pull_def cast_defs)

text \<open>
  The cast at work: the entry of \<open>A\<close> asked for in upper-case digits is removed all the
  same, and an entry id that is no object id is answered with the server error.
\<close>

lemma removeRead_cast_samples:
  "fst (removeRead ''A'' \<lparr>d_id = Some ''P'', d_readEntryId = Some ''64B0F1A2C3D4E5F60718293A''\<rparr>
      (sample_server False))
     = Removed (sample_paper\<lparr>reads := [sample_read_B]\<rparr>) \<and>
   removeRead ''A'' \<lparr>d_id = Some ''P'', d_readEntryId = Some ''r1''\<rparr> (sample_server False)
     = (RemoveError, sample_server False) \<and>
   adminRemoveRead \<lparr>d_id = Some ''P'', d_readEntryId = Some ''r1''\<rparr> (sample_server False)
     = (RemoveError, sample_server False)"
  by (simp add: sample_defs removeRead_def adminRemoveRead_def joi_string_required_def pull_def
      cast_defs)

text \<open>
  The owner's removal: when the stored paper has an entry of the id asked for whose user
  is the requesting one, the answer is \<open>Removed\<close>, the entry is gone, the metadata and
  every read of another entry id stay.
\<close>

theorem removeRead_by_owner:
  assumes "findOne pid (papers s) = Some P" and "pid \<noteq> []"
    and "castObjectId readEntryId = Some oid"
    and "e \<in> set (reads P)" and "entryId e = oid" and "user e = userId"
  shows "\<exists>P' s'. removeRead userId \<lparr>d_id = Some pid, d_readEntryId = Some readEntryId\<rparr> s
                    = (Removed P', s') \<and>
           findOne pid (papers s') = Some P' \<and>
           metadata P' = metadata P \<and>
           reads P' = filter (\<lambda>r. \<not> (entryId r = oid \<and> user r = userId)) (reads P) \<and>
           e \<notin> set (reads P') \<and>
           (\<forall>r\<in>set (reads P). entryId r \<noteq> oid \<longrightarrow> r \<in> set (reads P'))"
proof -
  let ?query = "\<lambda>p. paper_id p = pid \<and> list_ex (\<lambda>r. entryId r = oid) (reads p) \<and>
                     list_ex (\<lambda>r. user r = userId) (reads p)"
  let ?update = "pull (\<lambda>r. entryId r = oid \<and> user r = userId)"
  have ne: "readEntryId \<noteq> []"
    using assms(3) by (rule castObjectId_Some_nonempty)
  have q: "?query P"
    using assms findOne_Some_id [OF assms(1)] by (auto simp: list_ex_iff)
  from findOneAndUpdate_at_findOne [of pid "papers s" P ?query ?update, OF assms(1) q]
  obtain ps' where ps': "findOneAndUpdate ?query ?update (papers s) = Some (?update P, ps')"
    "findOne pid ps' = Some (?update P)"
    using findOne_Some_id [OF assms(1)] by auto
  have "removeRead userId \<lparr>d_id = Some pid, d_readEntryId = Some readEntryId\<rparr> s
          = (Removed (?update P), s\<lparr>papers := ps'\<rparr>)"
    using assms(2,3) ne ps'(1) by (simp add: removeRead_def joi_string_required_def)
  then show ?thesis
    using ps'(2) assms(4,5,6) by auto
qed

theorem removeRead_by_owner_witness:
  "\<exists>P' s'. removeRead ''A'' \<lparr>d_id = Some ''P'', d_readEntryId = Some ''64B0F1A2C3D4E5F60718293A''\<rparr>
              (sample_server False) = (Removed P', s') \<and>
           findOne ''P'' (papers s') = Some P' \<and>
           metadata P' = sample_metadata \<and>
           reads P' = [sample_read_B]"
proof -
  have e: "sample_read_A \<in> set (reads sample_paper)" "user sample_read_A = ''A''"
    "entryId sample_read_B \<noteq> entryId sample_read_A"
    by (simp_all add: sample_paper_def sample_read_A_def sample_read_B_def)
  have c: "castObjectId ''64B0F1A2C3D4E5F60718293A'' = Some (entryId sample_read_A)"
    by (simp add: sample_read_A_def cast_defs)
  from removeRead_by_owner [OF sample_findOne_P _ c e(1) refl e(2), of False]
  show ?thesis
    using e(3) by (auto simp: sample_paper_def e(2))
qed

text \<open>
  An answer \<open>NotFound\<close> leaves the server as it was.
\<close>

theorem removeRead_NotFound_intact:
  "fst (removeRead userId body s) = NotFound \<Longrightarrow> snd (removeRead userId body s) = s"
  by (auto simp: removeRead_def split: if_splits option.splits prod.splits)

theorem removeRead_NotFound_intact_witness:
  "fst (removeRead ''C'' \<lparr>d_id = Some ''P'', d_readEntryId = Some (entryId sample_read_A)\<rparr>
          (sample_server False)) = NotFound \<and>
   snd (removeRead ''C'' \<lparr>d_id = Some ''P'', d_readEntryId = Some (entryId sample_read_A)\<rparr>
          (sample_server False)) = sample_server False"
proof -
  have nf: "fst (removeRead ''C'' \<lparr>d_id = Some ''P'', d_readEntryId = Some (entryId sample_read_A)\<rparr>
          (sample_server False)) = NotFound"
    by (simp add: sample_defs removeRead_def joi_string_required_def pull_def cast_defs)
  from removeRead_NotFound_intact [OF nf] nf show ?thesis by simp
qed

text \<open>
  The administrator's removal asks for the entry id only: it removes the entry whoever
  its user is.
\<close>

theorem adminRemoveRead_unscoped:
  assumes "findOne pid (papers s) = Some P" and "pid \<noteq> []"
    and "castObjectId readEntryId = Some oid"
    and "e \<in> set (reads P)" and "entryId e = oid"
  shows "\<exists>P' s'. adminRemoveRead \<lparr>d_id = Some pid, d_readEntryId = Some readEntryId\<rparr> s
                    = (Removed P', s') \<and>
           findOne pid (papers s') = Some P' \<and>
           metadata P' = metadata P \<and>
           reads P' = filter (\<lambda>r. entryId r \<noteq> oid) (reads P)"
proof -
  let ?query = "\<lambda>p. paper_id p = pid \<and> list_ex (\<lambda>r. entryId r = oid) (reads p)"
  let ?update = "pull (\<lambda>r. entryId r = oid)"
  have ne: "readEntryId \<noteq> []"
    using assms(3) by (rule castObjectId_Some_nonempty)
  have q: "?query P"
    using assms findOne_Some_id [OF assms(1)] by (auto simp: list_ex_iff)
  from findOneAndUpdate_at_findOne [of pid "papers s" P ?query ?update, OF assms(1) q]
  obtain ps' where ps': "findOneAndUpdate ?query ?update (papers s) = Some (?update P, ps')"
    "findOne pid ps' = Some (?update P)"
    using findOne_Some_id [OF assms(1)] by auto
  have "adminRemoveRead \<lparr>d_id = Some pid, d_readEntryId = Some readEntryId\<rparr> s
          = (Removed (?update P), s\<lparr>papers := ps'\<rparr>)"
    using assms(2,3) ne ps'(1) by (simp add: adminRemoveRead_def joi_string_required_def)
  then show ?thesis
    using ps'(2) by auto
qed

theorem adminRemoveRead_unscoped_witness:
  "\<exists>P' s'. adminRemoveRead \<lparr>d_id = Some ''P'', d_readEntryId = Some (entryId sample_read_B)\<rparr>
              (sample_server False) = (Removed P', s') \<and>
           findOne ''P'' (papers s') = Some P' \<and>
           metadata P' = sample_metadata \<and>
           reads P' = [sample_read_A]"
proof -
  have e: "sample_read_B \<in> set (reads sample_paper)"
    "entryId sample_read_A \<noteq> entryId sample_read_B"
    by (simp_all add: sample_paper_def sample_read_A_def sample_read_B_def)
  have c: "castObjectId (entryId sample_read_B) = Some (entryId sample_read_B)"
    by (simp add: sample_read_B_def cast_defs)
  from adminRemoveRead_unscoped [OF sample_findOne_P _ c e(1) refl, of False]
  show ?thesis
    using e(2) by (auto simp: sample_paper_def)
qed

section \<open>Searching\<close>

text \<open>
  Claim C6. A search that succeeds was validated to a value \<open>v\<close> (keyword and user
  trimmed, the year as given) and its conditions \<open>c\<close> built. The total count is the number
  of papers that pass the match stage, and the page is cut from them. A stored paper
  passes exactly when it meets every criterion that is given: the keyword's regular
  expression holds of the title, of some author or of the abstract; some read has the
  user; the publish year is the year. With no criterion every stored paper passes. For a
  keyword of ASCII letters, digits and spaces the regular expression is the occurrence of
  the keyword in the text, both taken to lower case.
\<close>

theorem searchPapers_conjunctive:
  assumes "searchPapers engine q s = SearchOk res"
  shows "\<exists>v c. searchSchema q = Some v \<and> build_matchConditions engine v = Some c \<and>
          v_keyword v = map_option trim (q_keyword q) \<and>
          v_user v = map_option trim (q_user q) \<and>
          v_publishYear v = q_publishYear q \<and>
          totalCount res = length (match_stage c (papers s)) \<and>
          r_papers res = take (nat (v_limit v))
             (drop (nat ((v_page v - 1) * v_limit v)) (match_stage c (papers s))) \<and>
          (\<forall>p. p \<in> set (match_stage c (papers s)) \<longleftrightarrow>
               p \<in> set (papers s) \<and>
               (\<forall>k. v_keyword v = Some k \<longrightarrow>
                  (\<exists>searchRegex. RegExp_i engine k = Some searchRegex \<and>
                     (searchRegex (title (metadata p)) \<or>
                      (\<exists>a\<in>set (authors (metadata p)). searchRegex a) \<or>
                      searchRegex (abstract (metadata p))))) \<and>
               (\<forall>u. v_user v = Some u \<longrightarrow> (\<exists>r\<in>set (reads p). user r = u)) \<and>
               (\<forall>y. v_publishYear v = Some y \<longrightarrow> publishYear (metadata p) = y)) \<and>
          (v_keyword v = None \<and> v_user v = None \<and> v_publishYear v = None
             \<longrightarrow> match_stage c (papers s) = papers s) \<and>
          (\<forall>k. v_keyword v = Some k \<and> plain k \<longrightarrow>
             RegExp_i engine k =
               Some (\<lambda>text. \<exists>a b. map toLowerCase text = a @ map toLowerCase k @ b))"
proof -
  from searchPapers_OkD [OF assms] obtain v c where
    v: "searchSchema q = Some v" and c: "build_matchConditions engine v = Some c" and
    res: "res = \<lparr>totalCount = length (match_stage c (papers s)), r_page = v_page v,
                  r_limit = v_limit v,
                  r_papers = take (nat (v_limit v))
                    (drop (nat ((v_page v - 1) * v_limit v)) (match_stage c (papers s)))\<rparr>"
    by blast
  note sv = searchSchema_SomeD [OF v]
  note bc = build_matchConditions_SomeD [OF sv(4,5,6) c]
  have member: "p \<in> set (match_stage c (papers s)) \<longleftrightarrow>
               p \<in> set (papers s) \<and>
               (\<forall>k. v_keyword v = Some k \<longrightarrow>
                  (\<exists>searchRegex. RegExp_i engine k = Some searchRegex \<and>
                     (searchRegex (title (metadata p)) \<or>
                      (\<exists>a\<in>set (authors (metadata p)). searchRegex a) \<or>
                      searchRegex (abstract (metadata p))))) \<and>
               (\<forall>u. v_user v = Some u \<longrightarrow> (\<exists>r\<in>set (reads p). user r = u)) \<and>
               (\<forall>y. v_publishYear v = Some y \<longrightarrow> publishYear (metadata p) = y)" for p
    using bc(4) unfolding match_stage_iff matches_def bc(1,2,3)
    by (cases "v_keyword v"; cases "v_user v"; cases "v_publishYear v")
       (auto simp: list_ex_iff split: option.splits)
  have nofilter: "v_keyword v = None \<and> v_user v = None \<and> v_publishYear v = None
             \<longrightarrow> match_stage c (papers s) = papers s"
    using bc by (simp add: match_stage_def)
  have ci: "\<forall>k. v_keyword v = Some k \<and> plain k \<longrightarrow>
             RegExp_i engine k =
               Some (\<lambda>text. \<exists>a b. map toLowerCase text = a @ map toLowerCase k @ b)"
    by (simp add: RegExp_i_plain)
  show ?thesis
    using v c sv(1,2,3) member nofilter ci by (intro exI [of _ v] exI [of _ c]) (simp add: res)
qed

text \<open>
  The sample store of two papers titled \<open>Neural Nets\<close>, of 2020 and 2021: the keyword
  \<open>neural\<close> with the year 2020 finds the first and not the second.
\<close>

theorem searchPapers_conjunctive_witness:
  "searchPapers no_engine (sample_query (Some '' neural '') None (Some 2020) 1 10) sample_server_PQ
     = SearchOk \<lparr>totalCount = 1, r_page = 1, r_limit = 10, r_papers = [sample_paper]\<rparr> \<and>
   (\<exists>v c. searchSchema (sample_query (Some '' neural '') None (Some 2020) 1 10) = Some v \<and>
      build_matchConditions no_engine v = Some c \<and>
      v_keyword v = Some ''neural'' \<and> v_publishYear v = Some 2020 \<and>
      length (match_stage c (papers sample_server_PQ)) = 1 \<and>
      sample_paper \<in> set (match_stage c (papers sample_server_PQ)) \<and>
      sample_paper_Q \<notin> set (match_stage c (papers sample_server_PQ)))"
proof -
  let ?q = "sample_query (Some '' neural '') None (Some 2020) 1 10"
  let ?res = "\<lparr>totalCount = 1, r_page = 1, r_limit = 10, r_papers = [sample_paper]\<rparr>"
  have run: "searchPapers no_engine ?q sample_server_PQ = SearchOk ?res"
    by (rule search_neural_2020)
  from searchPapers_conjunctive [OF run] obtain v c where
    v: "searchSchema ?q = Some v" and c: "build_matchConditions no_engine v = Some c" and
    k: "v_keyword v = map_option trim (q_keyword ?q)" and
    y: "v_publishYear v = q_publishYear ?q" and
    n: "totalCount ?res = length (match_stage c (papers sample_server_PQ))" and
    r: "r_papers ?res = take (nat (v_limit v))
          (drop (nat ((v_page v - 1) * v_limit v)) (match_stage c (papers sample_server_PQ)))" and
    m: "\<And>p. p \<in> set (match_stage c (papers sample_server_PQ)) \<longleftrightarrow>
               p \<in> set (papers sample_server_PQ) \<and>
               (\<forall>k. v_keyword v = Some k \<longrightarrow>
                  (\<exists>searchRegex. RegExp_i no_engine k = Some searchRegex \<and>
                     (searchRegex (title (metadata p)) \<or>
                      (\<exists>a\<in>set (authors (metadata p)). searchRegex a) \<or>
                      searchRegex (abstract (metadata p))))) \<and>
               (\<forall>u. v_user v = Some u \<longrightarrow> (\<exists>r\<in>set (reads p). user r = u)) \<and>
               (\<forall>y. v_publishYear v = Some y \<longrightarrow> publishYear (metadata p) = y)"
    by blast
  have k': "v_keyword v = Some ''neural''"
    using k by (simp add: sample_query_def trim_def isWhiteSpace_def)
  have y': "v_publishYear v = Some 2020"
    using y by (simp add: sample_query_def)
  have q: "sample_paper_Q \<notin> set (match_stage c (papers sample_server_PQ))"
    unfolding m using y' by (simp add: sample_paper_Q_def)
  have "length (match_stage c (papers sample_server_PQ)) = 1"
    using n by simp
  moreover from this q have "sample_paper \<in> set (match_stage c (papers sample_server_PQ))"
    using r by (cases "match_stage c (papers sample_server_PQ)") (auto split: if_splits simp: take_Cons' drop_Cons')
  ultimately show ?thesis
    using run v c k' y' q by blast
qed

text \<open>
  Claim C7. In a search that succeeds, the total count is the number of papers that pass
  the match stage, before pagination; the page skips \<open>(page - 1) * limit\<close> of them and
  has at most \<open>limit\<close>; it is empty when the skip reaches past the matches; and the same
  search with any other valid page and limit succeeds too, with the same total count.
\<close>

theorem searchPapers_pagination:
  assumes "searchPapers engine q s = SearchOk res"
  shows "\<exists>v c. searchSchema q = Some v \<and> build_matchConditions engine v = Some c \<and>
      totalCount res = length (match_stage c (papers s)) \<and>
      r_papers res = take (nat (v_limit v))
         (drop (nat ((v_page v - 1) * v_limit v)) (match_stage c (papers s))) \<and>
      int (length (r_papers res)) \<le> v_limit v \<and>
      (int (length (match_stage c (papers s))) \<le> (v_page v - 1) * v_limit v
         \<longrightarrow> r_papers res = []) \<and>
      (\<forall>pg lm. joi_page pg \<noteq> None \<and> joi_limit lm \<noteq> None \<longrightarrow>
         (\<exists>res'. searchPapers engine (q\<lparr>q_page := pg, q_limit := lm\<rparr>) s = SearchOk res' \<and>
                 totalCount res' = totalCount res))"
proof -
  from searchPapers_OkD [OF assms] obtain v c where
    v: "searchSchema q = Some v" and c: "build_matchConditions engine v = Some c" and
    res: "res = \<lparr>totalCount = length (match_stage c (papers s)), r_page = v_page v,
                  r_limit = v_limit v,
                  r_papers = take (nat (v_limit v))
                    (drop (nat ((v_page v - 1) * v_limit v)) (match_stage c (papers s)))\<rparr>"
    by blast
  note sv = searchSchema_SomeD [OF v]
  have len: "int (length (r_papers res)) \<le> v_limit v"
    using sv(10) by (simp add: res)
  have beyond: "int (length (match_stage c (papers s))) \<le> (v_page v - 1) * v_limit v
         \<longrightarrow> r_papers res = []"
    by (simp add: res)
  have other: "\<exists>res'. searchPapers engine (q\<lparr>q_page := pg, q_limit := lm\<rparr>) s = SearchOk res' \<and>
                 totalCount res' = totalCount res"
    if "joi_page pg \<noteq> None \<and> joi_limit lm \<noteq> None" for pg lm
  proof -
    from that obtain p l where pl: "joi_page pg = Some p" "joi_limit lm = Some l" by auto
    have "searchPapers engine (q\<lparr>q_page := pg, q_limit := lm\<rparr>) s =
            SearchOk \<lparr>totalCount = length (match_stage c (papers s)), r_page = p, r_limit = l,
              r_papers = take (nat l) (drop (nat ((p - 1) * l)) (match_stage c (papers s)))\<rparr>"
      using searchPapers_OkI [OF searchSchema_page_limit [OF v pl], of engine c s] c
      by (simp add: build_matchConditions_page_limit)
    then show ?thesis by (simp add: res)
  qed
  show ?thesis
    using v c len beyond other by (intro exI [of _ v] exI [of _ c]) (simp add: res)
qed

text \<open>
  Two papers, limit 1: page 1 has one paper and the total count 2, page 4 is empty with
  the total count 2.
\<close>

theorem searchPapers_pagination_witness:
  "searchPapers no_engine (sample_query None None None 1 1) sample_server_PQ
     = SearchOk \<lparr>totalCount = 2, r_page = 1, r_limit = 1, r_papers = [sample_paper]\<rparr> \<and>
   (\<exists>res'. searchPapers no_engine (sample_query None None None 4 1) sample_server_PQ
              = SearchOk res' \<and> totalCount res' = 2 \<and> r_papers res' = [])"
proof -
  let ?q = "sample_query None None None 1 1"
  let ?res = "\<lparr>totalCount = 2, r_page = 1, r_limit = 1, r_papers = [sample_paper]\<rparr>"
  have run: "searchPapers no_engine ?q sample_server_PQ = SearchOk ?res"
    by (rule search_all_page1)
  from searchPapers_pagination [OF run] obtain v c where
    o: "\<And>pg lm. joi_page pg \<noteq> None \<and> joi_limit lm \<noteq> None \<Longrightarrow>
         (\<exists>res'. searchPapers no_engine (?q\<lparr>q_page := pg, q_limit := lm\<rparr>) sample_server_PQ
                    = SearchOk res' \<and> totalCount res' = totalCount ?res)"
    by blast
  have "joi_page (Some 4) \<noteq> None \<and> joi_limit (Some 1) \<noteq> None"
    by (simp add: joi_page_def joi_limit_def joi_safe_def)
  from o [OF this] obtain res' where
    r': "searchPapers no_engine (sample_query None None None 4 1) sample_server_PQ = SearchOk res'"
      "totalCount res' = 2"
    by (auto simp: sample_query_def)
  from r'(1) have "r_papers res' = []"
    by (auto simp: search_all_page4)
  with run r' show ?thesis by blast
qed

text \<open>
  Claim C8, as amended. The search puts no order of its own on the result. In a search
  that succeeds, with the validated value \<open>v\<close> (page and limit as asked for, or 1 and 10)
  and the conditions \<open>c\<close>, the papers that pass the match stage are the stored papers
  that satisfy \<open>c\<close>, in the order in which the store enumerates the collection; the page
  is exactly the papers after the first \<open>(page - 1) * limit\<close> of these, up to \<open>limit\<close> of
  them, in that order.
\<close>

theorem searchPapers_store_order:
  assumes "searchPapers engine q s = SearchOk res"
  shows "\<exists>v c. searchSchema q = Some v \<and> build_matchConditions engine v = Some c \<and>
           v_page v = (case q_page q of None \<Rightarrow> 1 | Some p \<Rightarrow> p) \<and>
           v_limit v = (case q_limit q of None \<Rightarrow> 10 | Some l \<Rightarrow> l) \<and>
           match_stage c (papers s) = filter (matches c) (papers s) \<and>
           r_papers res =
             take (nat (v_limit v))
               (drop (nat ((v_page v - 1) * v_limit v)) (filter (matches c) (papers s))) \<and>
           subseq (r_papers res) (papers s)"
proof -
  from searchPapers_OkD [OF assms] obtain v c where
    v: "searchSchema q = Some v" and c: "build_matchConditions engine v = Some c" and
    res: "res = \<lparr>totalCount = length (match_stage c (papers s)), r_page = v_page v,
                  r_limit = v_limit v,
                  r_papers = take (nat (v_limit v))
                    (drop (nat ((v_page v - 1) * v_limit v)) (match_stage c (papers s)))\<rparr>"
    by blast
  note f = searchSchema_fields [OF v]
  have pg: "v_page v = (case q_page q of None \<Rightarrow> 1 | Some p \<Rightarrow> p)"
    by (rule joi_page_value [OF f(4)])
  have lm: "v_limit v = (case q_limit q of None \<Rightarrow> 10 | Some l \<Rightarrow> l)"
    by (rule joi_limit_value [OF f(5)])
  have ms: "match_stage c (papers s) = filter (matches c) (papers s)"
    by (rule match_stage_matches)
  have page: "r_papers res =
             take (nat (v_limit v))
               (drop (nat ((v_page v - 1) * v_limit v)) (filter (matches c) (papers s)))"
    by (simp add: res ms)
  have "sublist (r_papers res) (filter (matches c) (papers s))"
    unfolding page by (rule sublist_order.order.trans [OF sublist_take sublist_drop])
  then have "subseq (r_papers res) (filter (matches c) (papers s))"
    by (rule sublist_imp_subseq)
  moreover have "subseq (filter (matches c) (papers s)) (papers s)"
    by simp
  ultimately have sub: "subseq (r_papers res) (papers s)"
    by (rule subseq_order.trans)
  from v c pg lm ms page sub show ?thesis by blast
qed

text \<open>
  Claim C8 as stated fails: the same two papers, enumerated by the store in the one
  order or the other, give different first pages, and the second of them has \<open>Q\<close> before
  \<open>P\<close>.
\<close>

theorem searchPapers_order_counterexample:
  "papers sample_server_QP = rev (papers sample_server_PQ) \<and>
   searchPapers no_engine (sample_query None None None 1 1) sample_server_PQ
     = SearchOk \<lparr>totalCount = 2, r_page = 1, r_limit = 1, r_papers = [sample_paper]\<rparr> \<and>
   searchPapers no_engine (sample_query None None None 1 1) sample_server_QP
     = SearchOk \<lparr>totalCount = 2, r_page = 1, r_limit = 1, r_papers = [sample_paper_Q]\<rparr> \<and>
   paper_id sample_paper = ''P'' \<and> paper_id sample_paper_Q = ''Q'' \<and>
   sample_paper \<noteq> sample_paper_Q"
  by (simp add: search_all_page1 search_all_page1_QP)
     (simp add: sample_server_QP_def sample_server_PQ_def sample_paper_def sample_paper_Q_def)

text \<open>
  The store that enumerates \<open>Q\<close> before \<open>P\<close>, no criterion, limit 1: page 1 is \<open>Q\<close> and
  page 2 is \<open>P\<close>.
\<close>

theorem searchPapers_store_order_witness:
  "searchPapers no_engine (sample_query None None None 2 1) sample_server_QP
     = SearchOk \<lparr>totalCount = 2, r_page = 2, r_limit = 1, r_papers = [sample_paper]\<rparr> \<and>
   (\<exists>v c. searchSchema (sample_query None None None 2 1) = Some v \<and>
          build_matchConditions no_engine v = Some c \<and>
          v_page v = 2 \<and> v_limit v = 1 \<and>
          [sample_paper] =
            take (nat (v_limit v))
              (drop (nat ((v_page v - 1) * v_limit v))
                 (filter (matches c) [sample_paper_Q, sample_paper]))) \<and>
   subseq [sample_paper] [sample_paper_Q, sample_paper]"
proof -
  have run: "searchPapers no_engine (sample_query None None None 2 1) sample_server_QP
     = SearchOk \<lparr>totalCount = 2, r_page = 2, r_limit = 1, r_papers = [sample_paper]\<rparr>"
    by (simp add: search_defs sample_defs)
  have ps: "papers sample_server_QP = [sample_paper_Q, sample_paper]"
    by (simp add: sample_server_QP_def)
  from searchPapers_store_order [OF run] obtain v c where
    "searchSchema (sample_query None None None 2 1) = Some v"
    "build_matchConditions no_engine v = Some c"
    "v_page v = (case q_page (sample_query None None None 2 1) of None \<Rightarrow> 1 | Some p \<Rightarrow> p)"
    "v_limit v = (case q_limit (sample_query None None None 2 1) of None \<Rightarrow> 10 | Some l \<Rightarrow> l)"
    "r_papers \<lparr>totalCount = 2, r_page = 2, r_limit = 1, r_papers = [sample_paper]\<rparr> =
       take (nat (v_limit v))
         (drop (nat ((v_page v - 1) * v_limit v)) (filter (matches c) (papers sample_server_QP)))"
    "subseq (r_papers \<lparr>totalCount = 2, r_page = 2, r_limit = 1, r_papers = [sample_paper]\<rparr>)
       (papers sample_server_QP)"
    by blast
  then have "searchSchema (sample_query None None None 2 1) = Some v \<and>
          build_matchConditions no_engine v = Some c \<and>
          v_page v = 2 \<and> v_limit v = 1 \<and>
          [sample_paper] =
            take (nat (v_limit v))
              (drop (nat ((v_page v - 1) * v_limit v))
                 (filter (matches c) [sample_paper_Q, sample_paper]))"
    and "subseq [sample_paper] [sample_paper_Q, sample_paper]"
    by (simp_all add: ps sample_query_def)
  with run show ?thesis by blast
qed

section \<open>Validation of a mark-read\<close>

text \<open>
  What \<open>metadataSchema\<close> makes of the publish year: a metadata with no year (missing or
  \<^verbatim>\<open>null\<close>), or with a year below 1900 or above the safe integers, is answered
  \<open>ValidationFailed\<close> and changes nothing; with the rest of the request valid, no year
  from 1900 up to the largest safe integer is answered \<open>ValidationFailed\<close>.
\<close>

lemma markRead_publishYear_validation:
  "(mb = Some m \<and>
    (case b_publishYear m of None \<Rightarrow> True | Some y \<Rightarrow> y < 1900 \<or> 9007199254740991 < y)
      \<longrightarrow> markRead u now oid pid mb rb s = (ValidationFailed, s)) \<and>
   (mb = Some m \<and> joi_string_required (b_title m) \<and> joi_string_array_required (b_authors m) \<and>
    joi_string_required (b_abstract m) \<and> \<not> readError rb \<and>
    b_publishYear m = Some y \<and> 1900 \<le> y \<and> y \<le> 9007199254740991
      \<longrightarrow> fst (markRead u now oid pid mb rb s) \<noteq> ValidationFailed)"
proof (intro conjI impI)
  assume h: "mb = Some m \<and>
    (case b_publishYear m of None \<Rightarrow> True | Some y \<Rightarrow> y < 1900 \<or> 9007199254740991 < y)"
  then have "metadataError mb"
    by (auto simp: metadataError_def metadataSchema_def joi_publishYear_required_def joi_safe_def
        split: option.splits)
  then show "markRead u now oid pid mb rb s = (ValidationFailed, s)"
    by (simp add: markRead_invalid)
next
  assume h: "mb = Some m \<and> joi_string_required (b_title m) \<and>
    joi_string_array_required (b_authors m) \<and> joi_string_required (b_abstract m) \<and>
    \<not> readError rb \<and> b_publishYear m = Some y \<and> 1900 \<le> y \<and> y \<le> 9007199254740991"
  then have "\<not> metadataError mb"
    by (simp add: metadataError_def metadataSchema_def joi_publishYear_required_def joi_safe_def)
  moreover from h have "\<not> readError rb" by blast
  ultimately show "fst (markRead u now oid pid mb rb s) \<noteq> ValidationFailed"
    by (rule markRead_valid_not_ValidationFailed)
qed

text \<open>
  Claim C9, at concrete inputs. A request whose metadata has the publish year 3000, a
  year no current year has reached, is not refused: it is accepted and the paper is
  stored with that year. A request whose metadata has the publish year \<^verbatim>\<open>null\<close>, which
  the extension's content script sends for a page without a year, is answered
  \<open>ValidationFailed\<close>.
\<close>

theorem markRead_publishYear_future_and_null:
  "markRead ''A'' 5 sample_oid ''Z'' (sample_metadata_body (Some 3000))
         (sample_read_body ''A'' (Some ''x'')) (sample_server True)
     = (Accepted \<lparr>paper_id = ''Z'',
                  metadata = \<lparr>title = ''Another Title'', authors = [''Carl Gauss''],
                              abstract = ''Another abstract'', publishYear = 3000\<rparr>,
                  reads = [make_newReadEntry ''A'' 5 sample_oid ''x'']\<rparr>,
        (sample_server True)\<lparr>papers := papers (sample_server True) @
           [\<lparr>paper_id = ''Z'',
             metadata = \<lparr>title = ''Another Title'', authors = [''Carl Gauss''],
                         abstract = ''Another abstract'', publishYear = 3000\<rparr>,
             reads = [make_newReadEntry ''A'' 5 sample_oid ''x'']\<rparr>]\<rparr>) \<and>
   markRead ''A'' 5 sample_oid ''Z'' (sample_metadata_body None)
         (sample_read_body ''A'' (Some ''x'')) (sample_server True)
     = (ValidationFailed, sample_server True)"
  by (simp add: sample_defs joi_defs markRead_defs)

text \<open>
  What \<open>readSchema\<close> makes of the notes: a read with no notes, or with the empty string
  for notes, is answered \<open>ValidationFailed\<close> and changes nothing; and every accepted
  mark-read had notes that are not empty, which are the notes of the read it appended.
\<close>

lemma markRead_notes_required:
  "(rb = Some r \<and> (b_notes r = None \<or> b_notes r = Some [])
      \<longrightarrow> markRead u now oid pid mb rb s = (ValidationFailed, s)) \<and>
   (fst (markRead u now oid pid mb rb s) = Accepted P'
      \<longrightarrow> (\<exists>r n. rb = Some r \<and> b_notes r = Some n \<and> n \<noteq> [] \<and>
                 reads P' \<noteq> [] \<and> read_notes (last (reads P')) = n))"
proof (intro conjI impI)
  assume "rb = Some r \<and> (b_notes r = None \<or> b_notes r = Some [])"
  then have "readError rb"
    by (auto simp: readError_def readSchema_def joi_string_required_def)
  then show "markRead u now oid pid mb rb s = (ValidationFailed, s)"
    by (simp add: markRead_invalid)
next
  assume "fst (markRead u now oid pid mb rb s) = Accepted P'"
  then show "\<exists>r n. rb = Some r \<and> b_notes r = Some n \<and> n \<noteq> [] \<and>
                 reads P' \<noteq> [] \<and> read_notes (last (reads P')) = n"
    by (rule markRead_Accepted_notes)
qed

text \<open>
  Claim C10, at concrete inputs. A mark-read of \<open>A\<close> for the stored paper \<open>P\<close>, valid but
  for its notes: with the empty string for notes, which the extension's popup sends when
  its prompt for optional notes is left empty, and with no notes at all, the answer is
  \<open>ValidationFailed\<close> and nothing is stored, where the same request with the notes \<open>w\<close>
  is accepted.
\<close>

theorem markRead_empty_notes_refused:
  "markRead ''A'' 5 sample_oid ''P'' (sample_metadata_body (Some 2020))
         (sample_read_body ''A'' (Some [])) (sample_server False)
     = (ValidationFailed, sample_server False) \<and>
   markRead ''A'' 5 sample_oid ''P'' (sample_metadata_body (Some 2020))
         (sample_read_body ''A'' None) (sample_server False)
     = (ValidationFailed, sample_server False) \<and>
   fst (markRead ''A'' 5 sample_oid ''P'' (sample_metadata_body (Some 2020))
         (sample_read_body ''A'' (Some ''w'')) (sample_server False))
     = Accepted (sample_paper\<lparr>reads := reads sample_paper @
                  [make_newReadEntry ''A'' 5 sample_oid ''w'']\<rparr>)"
  by (simp add: sample_defs joi_defs markRead_defs)

end
